theory Spec2Isabelle
  imports Complex_Main "HOL-Library.Sublist"
begin

chapter \<open>The model: data and operations of the sources\<close>

section \<open>Errors thrown by the toolkit\<close>

text \<open>
  Every \<^verbatim>\<open>throw new Error(msg)\<close> of the sources is the value \<open>Error msg\<close>; a
  destructuring of \<^verbatim>\<open>undefined\<close> is \<open>TypeError\<close>.  A function that can throw
  returns \<open>error + 'a\<close> together with the state it leaves behind.
\<close>

datatype error = Error string | TypeError

section \<open>Multiframe image ids (convertMultiframeImageIds.js)\<close>

text \<open>
  \<^verbatim>\<open>metaData.get('MultiframeModule', imageId)\<close> is a lookup that yields an object or
  \<^verbatim>\<open>undefined\<close>; the only field read is \<^verbatim>\<open>NumberOfFrames\<close>, which may be absent.
\<close>

record MultiframeModule =
  NumberOfFrames :: "int option"

type_synonym metaData = "string \<Rightarrow> MultiframeModule option"

text \<open>\<^verbatim>\<open>String.prototype.indexOf\<close>: the first position where the pattern starts, or -1.\<close>

fun indexOf :: "string \<Rightarrow> string \<Rightarrow> int" where
  "indexOf pat [] = (if pat = [] then 0 else -1)"
| "indexOf pat (c # cs) =
     (if prefix pat (c # cs) then 0
      else (let k = indexOf pat cs in if k = -1 then -1 else k + 1))"

text \<open>
  \<^verbatim>\<open>s.slice(0, e)\<close>; a negative end counts from the end of the string, as in JavaScript.
\<close>

definition slice0 :: "string \<Rightarrow> int \<Rightarrow> string" where
  "slice0 s e = (if e < 0 then take (nat (int (length s) + e)) s else take (nat e) s)"

definition imageIdFrameless :: "string \<Rightarrow> string" where
  "imageIdFrameless imageId = slice0 imageId (indexOf ''/frames/'' imageId + 8)"

text \<open>The decimal text JavaScript appends for a positive integer.\<close>

definition digit :: "nat \<Rightarrow> char" where
  "digit d = ''0123456789'' ! d"

fun string_of_nat :: "nat \<Rightarrow> string" where
  "string_of_nat n =
     (if n < 10 then [digit n] else string_of_nat (n div 10) @ [digit (n mod 10)])"

declare string_of_nat.simps [simp del]

text \<open>
  The inner \<^verbatim>\<open>for (let i = 0; i < NumberOfFrames; i++)\<close>: frame \<open>i + 1\<close> is pushed when
  metadata exists for its image id.
\<close>

function frameLoop :: "metaData \<Rightarrow> string \<Rightarrow> int \<Rightarrow> int \<Rightarrow> string list \<Rightarrow> string list" where
  "frameLoop md pre n i newImageIds =
     (if i < n then
        (let newMetadata = md (pre @ string_of_nat (nat (i + 1)));
             newImageId = pre @ string_of_nat (nat (i + 1))
         in frameLoop md pre n (i + 1)
              (if newMetadata \<noteq> None then newImageIds @ [newImageId] else newImageIds))
      else newImageIds)"
  by pat_completeness auto
termination
  by (relation "measure (\<lambda>(md, pre, n, i, acc). nat (n - i))") auto

declare frameLoop.simps [simp del]

text \<open>The body of the \<^verbatim>\<open>forEach\<close> callback: one image id, pushed onto the new list.\<close>

definition convertOne :: "metaData \<Rightarrow> string \<Rightarrow> string list \<Rightarrow> string list" where
  "convertOne md imageId newImageIds =
     (case md imageId of
        None \<Rightarrow> newImageIds @ [imageId]
      | Some instanceMetaData \<Rightarrow>
          (case NumberOfFrames instanceMetaData of
             None \<Rightarrow> newImageIds @ [imageId]
           | Some n \<Rightarrow>
               if n \<noteq> 0 then
                 (if n > 1 then frameLoop md (imageIdFrameless imageId) n 0 newImageIds
                  else newImageIds @ [imageId])
               else newImageIds @ [imageId]))"

definition convertMultiframeImageIds :: "metaData \<Rightarrow> string list \<Rightarrow> string list" where
  "convertMultiframeImageIds md imageIds = fold (convertOne md) imageIds []"

text \<open>
  The prefix as a reader of the helper's comment understands it, for comparison with
  \<open>imageIdFrameless\<close>: the part of an image id up to and including its first
  \<^verbatim>\<open>/frames/\<close>; \<open>None\<close> when the id contains no \<^verbatim>\<open>/frames/\<close>.
\<close>

fun framesPrefix :: "string \<Rightarrow> string option" where
  "framesPrefix [] = None"
| "framesPrefix (c # cs) =
     (if prefix ''/frames/'' (c # cs) then Some ''/frames/''
      else map_option ((#) c) (framesPrefix cs))"

text \<open>An example: a three-frame instance of which frame 2 has no metadata, and a single-frame one.\<close>

definition exampleMetaData :: metaData where
  "exampleMetaData imageId =
     (if imageId = ''wadors:/s/1/frames/1'' then Some \<lparr>NumberOfFrames = Some 3\<rparr>
      else if imageId = ''wadors:/s/1/frames/3'' then Some \<lparr>NumberOfFrames = Some 3\<rparr>
      else if imageId = ''wadors:/s/2/frames/1'' then Some \<lparr>NumberOfFrames = Some 1\<rparr>
      else None)"

text \<open>
  An example with a two-frame instance whose image id contains no \<^verbatim>\<open>/frames/\<close>, and
  metadata registered under the ids \<^verbatim>\<open>wadouri1\<close> and \<^verbatim>\<open>wadouri2\<close>.
\<close>

definition exampleWadouriMetaData :: metaData where
  "exampleWadouriMetaData imageId =
     (if imageId = ''wadouri:file.dcm'' then Some \<lparr>NumberOfFrames = Some 2\<rparr>
      else if imageId = ''wadouri1'' \<or> imageId = ''wadouri2'' then Some \<lparr>NumberOfFrames = Some 1\<rparr>
      else None)"

section \<open>Sphere strategy: fillOutsideSphere\<close>

text \<open>
  \<^verbatim>\<open>export function fillOutsideSphere(): void { throw new Error(...) }\<close>.
  The function declares no parameter; whatever a caller passes (\<open>args\<close>) and whatever
  the state of the program is (\<open>st\<close>), the body is the single \<^verbatim>\<open>throw\<close>, which
  leaves the state as it was.
\<close>

definition fillOutsideSphere :: "'args \<Rightarrow> 'st \<Rightarrow> (error + unit) \<times> 'st" where
  "fillOutsideSphere args st = (Inl (Error ''fill outside sphere not implemented''), st)"

section \<open>Frame time vectors (getPlayClipTimeouts)\<close>

text \<open>
  JavaScript numbers are doubles, here the reals they denote (NaN and the infinities are
  outside the model).  Sums, differences and comparisons of the integers the player works
  with are exact.  A quotient is not: \<^verbatim>\<open>a / b\<close> is the exact quotient rounded to the
  nearest double.  The functions that divide take this operation as their first parameter
  \<open>jsDiv\<close>, and what is proved of them holds for every such operation.
  \<open>exactDivide\<close> is the quotient without rounding, which \<^verbatim>\<open>a / b\<close> returns whenever
  that quotient is itself a double.

  \<^verbatim>\<open>x | 0\<close> is ToInt32: the fraction is dropped (towards zero) and the integer is
  reduced modulo \<open>2^32\<close> into the signed 32-bit range.
\<close>

definition exactDivide :: "real \<Rightarrow> real \<Rightarrow> real" where
  "exactDivide a b = a / b"

definition trunc :: "real \<Rightarrow> int" where
  "trunc x = (if x < 0 then \<lceil>x\<rceil> else \<lfloor>x\<rfloor>)"

definition toInt32 :: "real \<Rightarrow> int" where
  "toInt32 x = (let m = trunc x mod 2 ^ 32 in if m \<ge> 2 ^ 31 then m - 2 ^ 32 else m)"

text \<open>The variables the \<^verbatim>\<open>for\<close> loop updates (\<open>sum_acc\<close> is the source's \<^verbatim>\<open>sum\<close>).\<close>

record timeoutsState =
  timeouts :: "int list"
  sample :: "int option"
  isTimeVarying :: bool
  sum_acc :: int

text \<open>\<^verbatim>\<open>for (i = 1; i < limit; i++) { ... }\<close>, with \<open>limit = vector.length\<close>.\<close>

function timeoutsLoop ::
  "(real \<Rightarrow> real \<Rightarrow> real) \<Rightarrow> real list \<Rightarrow> real \<Rightarrow> nat \<Rightarrow> timeoutsState \<Rightarrow> timeoutsState" where
  "timeoutsLoop jsDiv vector speed i st =
     (if i < length vector then
        (let delay = toInt32 (jsDiv (vector ! i) speed);
             st1 = st\<lparr>timeouts := timeouts st @ [delay]\<rparr>;
             st2 = (if i = 1 then st1\<lparr>sample := Some delay\<rparr>
                    else if Some delay \<noteq> sample st1 then st1\<lparr>isTimeVarying := True\<rparr>
                    else st1)
         in timeoutsLoop jsDiv vector speed (i + 1) (st2\<lparr>sum_acc := sum_acc st2 + delay\<rparr>))
      else st)"
  by pat_completeness auto
termination
  by (relation "measure (\<lambda>(jsDiv, vector, speed, i, st). length vector - i)") auto

declare timeoutsLoop.simps [simp del]

text \<open>
  \<open>speed\<close> is \<open>None\<close> when \<^verbatim>\<open>typeof speed !== 'number'\<close>.  The result is the pair
  \<^verbatim>\<open>{ timeouts, isTimeVarying }\<close>.
\<close>

definition getPlayClipTimeouts ::
  "(real \<Rightarrow> real \<Rightarrow> real) \<Rightarrow> real list \<Rightarrow> real option \<Rightarrow> int list \<times> bool" where
  "getPlayClipTimeouts jsDiv vector speed0 =
     (let speed = (case speed0 of None \<Rightarrow> 1 | Some s \<Rightarrow> if s \<le> 0 then 1 else s);
          st = timeoutsLoop jsDiv vector speed 1
                 \<lparr>timeouts = [], sample = None, isTimeVarying = False, sum_acc = 0\<rparr>
      in if length (timeouts st) > 0 then
           (let delay = (if isTimeVarying st
                         then toInt32 (jsDiv (real_of_int (sum_acc st)) (real (length (timeouts st))))
                         else timeouts st ! 0)
            in (timeouts st @ [delay], isTimeVarying st))
         else (timeouts st, isTimeVarying st))"

section \<open>Rectangle erase strategy (eraseRectangle)\<close>

text \<open>
  The labelmap is a flat typed array of integers.  Reading past its ends yields
  \<^verbatim>\<open>undefined\<close> (\<open>None\<close>); writing past its ends does nothing.
\<close>

definition jsGet :: "int list \<Rightarrow> int \<Rightarrow> int option" where
  "jsGet xs idx = (if 0 \<le> idx \<and> idx < int (length xs) then Some (xs ! nat idx) else None)"

definition jsSet :: "int list \<Rightarrow> int \<Rightarrow> int \<Rightarrow> int list" where
  "jsSet xs idx v = (if 0 \<le> idx \<and> idx < int (length xs) then xs[nat idx := v] else xs)"

text \<open>\<^verbatim>\<open>[[iMin, iMax], [jMin, jMax], [kMin, kMax]]\<close> and \<^verbatim>\<open>[width, height, depth]\<close>.\<close>

type_synonym boundsIJK = "(int \<times> int) \<times> (int \<times> int) \<times> (int \<times> int)"
type_synonym dimensions = "int \<times> int \<times> int"

text \<open>\<^verbatim>\<open>boundsIJK.every(p)\<close> over the three axes.\<close>

definition every :: "((int \<times> int) \<Rightarrow> bool) \<Rightarrow> boundsIJK \<Rightarrow> bool" where
  "every p b = (case b of (bi, bj, bk) \<Rightarrow> list_all p [bi, bj, bk])"

datatype event = SegmentationDataModified string string

record segmentationState =
  scalarData :: "int list"
  events :: "event list"

record ('w) EraseOperationData =
  toolGroupUID :: string
  segmentationDataUID :: string
  points :: "'w list"
  dimensions :: dimensions
  segmentsLocked :: "int list"

text \<open>
  Modelled from the spec: \<^verbatim>\<open>pointInShapeCallback\<close> (util/planar) is imported by
  eraseRectangle but is not among the sources.  It is the voxel iteration the strategies
  are layered on: it walks every voxel \<open>(i, j, k)\<close> of the bounding box, slice by slice
  and row by row, and for each voxel that \<open>pointInShape\<close> accepts it calls \<open>callback\<close>
  with the voxel's current value and its offset \<open>k * width * height + j * width + i\<close> in
  the flat labelmap.
\<close>

definition voxelOffset :: "dimensions \<Rightarrow> int \<times> int \<times> int \<Rightarrow> int" where
  "voxelOffset dims p =
     (case dims of (w, h, d) \<Rightarrow> case p of (i, j, k) \<Rightarrow> k * (w * h) + j * w + i)"

definition pointInShapeCallback ::
  "boundsIJK \<Rightarrow> dimensions \<Rightarrow> (int \<times> int \<times> int \<Rightarrow> bool) \<Rightarrow>
   (int option \<times> int \<Rightarrow> int list \<Rightarrow> int list) \<Rightarrow> int list \<Rightarrow> int list" where
  "pointInShapeCallback b dims pointInShape callback =
     (case b of ((iMin, iMax), (jMin, jMax), (kMin, kMax)) \<Rightarrow>
        fold (\<lambda>k. fold (\<lambda>j. fold (\<lambda>i sd.
                if pointInShape (i, j, k)
                then callback (jsGet sd (voxelOffset dims (i, j, k)), voxelOffset dims (i, j, k)) sd
                else sd)
              [iMin..iMax]) [jMin..jMax]) [kMin..kMax])"

text \<open>
  The callback of eraseRectangle: \<^verbatim>\<open>segmentsLocked.includes(value)\<close> is false for
  \<^verbatim>\<open>undefined\<close>.
\<close>

definition eraseCallback :: "int list \<Rightarrow> int option \<times> int \<Rightarrow> int list \<Rightarrow> int list" where
  "eraseCallback locked vi sd =
     (case vi of (val, index) \<Rightarrow>
        (case val of
           Some v \<Rightarrow> if v \<in> set locked then sd else jsSet sd index 0
         | None \<Rightarrow> jsSet sd index 0))"

text \<open>
  \<^verbatim>\<open>imageData.worldToIndex\<close> and \<^verbatim>\<open>getBoundingBoxAroundShape\<close> (util/segmentation) are
  not among the sources; they are the parameters \<open>worldToIndex\<close> and
  \<open>getBoundingBoxAroundShape\<close>.  The parameter \<open>inside\<close> is never read by the source.
\<close>

definition eraseRectangle ::
  "('w \<Rightarrow> 'x) \<Rightarrow> ('x list \<Rightarrow> dimensions \<Rightarrow> boundsIJK) \<Rightarrow> 'w EraseOperationData \<Rightarrow> bool \<Rightarrow>
   segmentationState \<Rightarrow> (error + unit) \<times> segmentationState" where
  "eraseRectangle worldToIndex getBoundingBoxAroundShape operationData inside st =
     (let rectangleCornersIJK = map worldToIndex (points operationData);
          b = getBoundingBoxAroundShape rectangleCornersIJK (dimensions operationData)
      in if every (\<lambda>(mn, mx). mn \<noteq> mx) b
         then (Inl (Error ''Oblique segmentation tools are not supported yet''), st)
         else
           (let pointInShape = (\<lambda>p. True);
                sd = pointInShapeCallback b (dimensions operationData) pointInShape
                       (eraseCallback (segmentsLocked operationData)) (scalarData st)
            in (Inr (),
                st\<lparr>scalarData := sd,
                   events := events st @
                     [SegmentationDataModified (toolGroupUID operationData)
                        (segmentationDataUID operationData)]\<rparr>)))"

definition eraseInsideRectangle ::
  "('w \<Rightarrow> 'x) \<Rightarrow> ('x list \<Rightarrow> dimensions \<Rightarrow> boundsIJK) \<Rightarrow> 'w EraseOperationData \<Rightarrow>
   segmentationState \<Rightarrow> (error + unit) \<times> segmentationState" where
  "eraseInsideRectangle worldToIndex getBoundingBoxAroundShape operationData st =
     eraseRectangle worldToIndex getBoundingBoxAroundShape operationData True st"

definition eraseOutsideRectangle ::
  "('w \<Rightarrow> 'x) \<Rightarrow> ('x list \<Rightarrow> dimensions \<Rightarrow> boundsIJK) \<Rightarrow> 'w EraseOperationData \<Rightarrow>
   segmentationState \<Rightarrow> (error + unit) \<times> segmentationState" where
  "eraseOutsideRectangle worldToIndex getBoundingBoxAroundShape operationData st =
     eraseRectangle worldToIndex getBoundingBoxAroundShape operationData False st"

text \<open>
  Auxiliary notions for the proofs: the offsets the iteration visits, in order, and the
  erase callback run over a list of offsets.
\<close>

definition boxOffsets :: "boundsIJK \<Rightarrow> dimensions \<Rightarrow> int list" where
  "boxOffsets b dims =
     (case b of ((iMin, iMax), (jMin, jMax), (kMin, kMax)) \<Rightarrow>
        concat (map (\<lambda>k. concat (map (\<lambda>j. map (\<lambda>i. voxelOffset dims (i, j, k)) [iMin..iMax])
           [jMin..jMax])) [kMin..kMax]))"

definition visitAll :: "int list \<Rightarrow> int list \<Rightarrow> int list \<Rightarrow> int list" where
  "visitAll locked offs sd = fold (\<lambda>off sd. eraseCallback locked (jsGet sd off, off) sd) offs sd"

text \<open>An example: a 2 x 2 x 1 labelmap with segment 2 locked.\<close>

definition exampleOperation :: "unit EraseOperationData" where
  "exampleOperation = \<lparr>toolGroupUID = ''tg'', segmentationDataUID = ''seg'', points = [],
      dimensions = (2, 2, 1), segmentsLocked = [2]\<rparr>"

definition exampleLabelmap :: segmentationState where
  "exampleLabelmap = \<lparr>scalarData = [1, 2, 3, 4], events = []\<rparr>"

section \<open>RectangleScissorsTool.preMouseDownCallback\<close>

type_synonym point3 = "real \<times> real \<times> real"
type_synonym color = "int \<times> int \<times> int \<times> int"

text \<open>What the callback reads of the viewport the element is enabled on.\<close>

record scissorsViewport =
  viewportId :: string
  viewPlaneNormal :: point3
  viewUp :: point3
  frameOfReferenceUID :: string
  isBaseVolumeViewport :: bool

record annotationMetadata =
  metaViewPlaneNormal :: point3
  metaViewUp :: point3
  FrameOfReferenceUID :: string
  referencedImageId :: string
  toolName :: string
  metaSegmentColor :: color

record annotation =
  highlighted :: bool
  invalidated :: bool
  metadata :: annotationMetadata
  handlePoints :: "point3 list"
  activeHandleIndex :: "nat option"

record editData =
  annotation :: annotation
  segmentIndex :: int
  segmentationId :: string
  editSegmentsLocked :: "int list"
  segmentColor :: color
  viewportIdsToRender :: "string list"
  handleIndex :: nat
  movingTextBox :: bool
  newAnnotation :: bool
  hasMoved :: bool
  volumeId :: "string option"
  referencedVolumeId :: "string option"
  imageId :: "string option"

text \<open>
  The calls into the rest of the toolkit that change something, in the order made.
\<close>

datatype scissorsEffect =
    ActivateDraw nat
  | HideElementCursor nat
  | PreventDefault
  | TriggerAnnotationRender "string list"

text \<open>
  The tool object (\<^verbatim>\<open>this\<close>): \<open>isDrawing\<close> is only ever tested with \<^verbatim>\<open>=== true\<close>, so
  \<^verbatim>\<open>undefined\<close> is \<open>False\<close>; \<open>editData\<close> is \<open>None\<close> for \<^verbatim>\<open>null\<close>.  \<open>effects\<close>
  records the draw handlers activated and the other calls with an effect.
\<close>

record scissorsTool =
  isDrawing :: bool
  editData :: "editData option"
  effects :: "scissorsEffect list"

text \<open>
  The state management modules the callback reads are not among the sources; each is a
  parameter.  A lookup that yields \<^verbatim>\<open>undefined\<close> is \<open>None\<close>.
\<close>

record scissorsEnv =
  getEnabledElement :: "nat \<Rightarrow> scissorsViewport option"
  getActiveSegmentation :: "string \<Rightarrow> string option"
  getActiveSegmentIndex :: "string \<Rightarrow> int"
  getLockedSegmentIndices :: "string \<Rightarrow> int list"
  getSegmentIndexColor :: "string \<Rightarrow> string \<Rightarrow> int \<Rightarrow> color"
  getSegmentationLabelmapVolumeId :: "string \<Rightarrow> string option option"
  getViewportIdsWithToolToRender :: "nat \<Rightarrow> string \<Rightarrow> string list"
  getVolumeReferencedVolumeId :: "string option \<Rightarrow> string option option"
  getCurrentLabelmapImageIdForViewport :: "string \<Rightarrow> string \<Rightarrow> string option"
  getToolName :: string

text \<open>\<^verbatim>\<open>evt.detail\<close>: the element and \<^verbatim>\<open>currentPoints.world\<close>.\<close>

record interactionEvent =
  element :: nat
  currentPointsWorld :: point3

text \<open>
  The callback returns \<^verbatim>\<open>undefined\<close> (\<open>None\<close>) when a drawing is under way and
  \<^verbatim>\<open>true\<close> at its end.  \<open>getSegmentationLabelmapVolumeId env id\<close> is
  \<^verbatim>\<open>getSegmentation(id).representationData[Labelmap]\<close> read for its \<^verbatim>\<open>volumeId\<close>
  (\<open>None\<close> when there is no such segmentation, which the destructuring turns into a
  TypeError); \<open>getVolumeReferencedVolumeId env v\<close> is \<^verbatim>\<open>cache.getVolume(v)\<close> read for its
  \<^verbatim>\<open>referencedVolumeId\<close>.
\<close>

definition preMouseDownCallback ::
  "scissorsEnv \<Rightarrow> interactionEvent \<Rightarrow> scissorsTool \<Rightarrow> (error + bool option) \<times> scissorsTool" where
  "preMouseDownCallback env evt this =
     (if isDrawing this = True then (Inr None, this)
      else
        (let worldPos = currentPointsWorld evt in
         case getEnabledElement env (element evt) of
           None \<Rightarrow> (Inl TypeError, this)
         | Some viewport \<Rightarrow>
             (let this1 = this\<lparr>isDrawing := True\<rparr> in
              case getActiveSegmentation env (viewportId viewport) of
                None \<Rightarrow>
                  (Inl (Error ''No active segmentation detected, create one before using scissors tool''),
                   this1)
              | Some segId \<Rightarrow>
                  (let segIndex = getActiveSegmentIndex env segId;
                       locked = getLockedSegmentIndices env segId;
                       col = getSegmentIndexColor env (viewportId viewport) segId segIndex
                   in case getSegmentationLabelmapVolumeId env segId of
                     None \<Rightarrow> (Inl TypeError, this1)
                   | Some labelmapVolumeId \<Rightarrow>
                       (let ann = \<lparr>highlighted = True, invalidated = True,
                              metadata = \<lparr>metaViewPlaneNormal = viewPlaneNormal viewport,
                                 metaViewUp = viewUp viewport,
                                 FrameOfReferenceUID = frameOfReferenceUID viewport,
                                 referencedImageId = '''',
                                 toolName = getToolName env,
                                 metaSegmentColor = col\<rparr>,
                              handlePoints = [worldPos, worldPos, worldPos, worldPos],
                              activeHandleIndex = None\<rparr>;
                            ids = getViewportIdsWithToolToRender env (element evt) (getToolName env);
                            ed = \<lparr>annotation = ann, segmentIndex = segIndex, segmentationId = segId,
                              editSegmentsLocked = locked, segmentColor = col,
                              viewportIdsToRender = ids, handleIndex = 3, movingTextBox = False,
                              newAnnotation = True, hasMoved = False, volumeId = None,
                              referencedVolumeId = None, imageId = None\<rparr>;
                            this2 = this1\<lparr>editData := Some ed\<rparr>
                        in
                          (case (if isBaseVolumeViewport viewport
                                 then (case getVolumeReferencedVolumeId env labelmapVolumeId of
                                         None \<Rightarrow> Inl TypeError
                                       | Some ref \<Rightarrow>
                                           Inr (ed\<lparr>volumeId := labelmapVolumeId,
                                                  referencedVolumeId := ref\<rparr>))
                                 else Inr (ed\<lparr>imageId :=
                                        getCurrentLabelmapImageIdForViewport env
                                          (viewportId viewport) segId\<rparr>)) of
                             Inl e \<Rightarrow> (Inl e, this2)
                           | Inr ed' \<Rightarrow>
                               (Inr (Some True),
                                this2\<lparr>editData := Some ed',
                                   effects := effects this2 @
                                     [ActivateDraw (element evt), HideElementCursor (element evt),
                                      PreventDefault, TriggerAnnotationRender ids]\<rparr>)))))))"

text \<open>An example: an element enabled on a viewport that has no active segmentation.\<close>

definition exampleScissorsEnv :: scissorsEnv where
  "exampleScissorsEnv =
     \<lparr>getEnabledElement = (\<lambda>e. if e = 0 then
          Some \<lparr>viewportId = ''vp'', viewPlaneNormal = (0, 0, 1), viewUp = (0, 1, 0),
                frameOfReferenceUID = ''for'', isBaseVolumeViewport = False\<rparr> else None),
      getActiveSegmentation = (\<lambda>v. None),
      getActiveSegmentIndex = (\<lambda>s. 1),
      getLockedSegmentIndices = (\<lambda>s. []),
      getSegmentIndexColor = (\<lambda>v s i. (255, 0, 0, 255)),
      getSegmentationLabelmapVolumeId = (\<lambda>s. None),
      getViewportIdsWithToolToRender = (\<lambda>e t. [''vp'']),
      getVolumeReferencedVolumeId = (\<lambda>v. None),
      getCurrentLabelmapImageIdForViewport = (\<lambda>v s. None),
      getToolName = ''RectangleScissor''\<rparr>"

definition exampleScissorsEvent :: interactionEvent where
  "exampleScissorsEvent = \<lparr>element = 0, currentPointsWorld = (1, 2, 3)\<rparr>"

definition exampleScissorsTool :: scissorsTool where
  "exampleScissorsTool = \<lparr>isDrawing = False, editData = None, effects = []\<rparr>"

section \<open>ZoomTool: dragParallelProjection\<close>




















section \<open>CINE playback (playClip, stopClip)\<close>

subsection \<open>Viewports, volumes and the tool state\<close>

text \<open>
  The classes \<^verbatim>\<open>instanceof\<close> tells apart.  \<open>VolumeViewport3D\<close> stands for a
  BaseVolumeViewport that is not a VolumeViewport.
\<close>

datatype viewportClass =
  StackViewport | VolumeViewport | VolumeViewport3D | VideoViewport | OtherViewport

definition instanceofBaseVolumeViewport :: "viewportClass \<Rightarrow> bool" where
  "instanceofBaseVolumeViewport c = (c = VolumeViewport \<or> c = VolumeViewport3D)"

text \<open>
  What the player reads of a viewport of the core library, one field per getter:
  \<^verbatim>\<open>getImageIds().length\<close>, \<^verbatim>\<open>getTargetImageIdIndex()\<close> (stack),
  \<^verbatim>\<open>getNumberOfSlices()\<close>, \<^verbatim>\<open>getSliceIndex()\<close>, \<^verbatim>\<open>getFrameRate()\<close> (video), the
  \<^verbatim>\<open>numScrollSteps\<close> and \<^verbatim>\<open>currentStepIndex\<close> of \<^verbatim>\<open>getScrollInfo()\<close> and whether the
  camera looks along the acquisition normal (volume), \<^verbatim>\<open>getAllVolumeIds()\<close> and
  \<^verbatim>\<open>viewportStatus === RENDERED\<close>.
\<close>

record cineViewport =
  viewportClass :: viewportClass
  imageIdsLength :: int
  targetImageIdIndex :: int
  numberOfSlices :: int
  sliceIndex :: int
  frameRate :: real
  scrollInfoNumScrollSteps :: int
  scrollInfoCurrentStepIndex :: int
  inAcquiredOrientation :: bool
  allVolumeIds :: "string list"
  statusRendered :: bool

record imageVolume =
  isDynamicVolume :: bool
  numDimensionGroups :: int
  dimensionGroupNumber :: int

text \<open>The tool data of one viewport (\<^verbatim>\<open>playClipData\<close>).\<close>

record playClipData =
  intervalId :: "nat option"
  framesPerSecond :: real
  lastFrameTimeStamp :: "real option"
  ignoreFrameTimeVector :: bool
  usingFrameTimeVector :: bool
  frameTimeVector :: "real list option"
  speed :: real
  reverse :: bool
  loop :: bool
  bounce :: bool
  dynamicCineEnabled :: "bool option"

text \<open>\<^verbatim>\<open>CINETypes.PlayClipOptions\<close>; an absent option is \<open>None\<close>.\<close>

record PlayClipOptions =
  optFramesPerSecond :: "real option"
  optFrameTimeVector :: "real list option"
  optFrameTimeVectorSpeedMultiplier :: "real option"
  optReverse :: "bool option"
  optLoop :: "bool option"
  optBounce :: "bool option"
  optDynamicCineEnabled :: "bool option"
  optWaitForRendered :: "int option"

definition noOptions :: PlayClipOptions where
  "noOptions = \<lparr>optFramesPerSecond = None, optFrameTimeVector = None,
     optFrameTimeVectorSpeedMultiplier = None, optReverse = None, optLoop = None,
     optBounce = None, optDynamicCineEnabled = None, optWaitForRendered = None\<rparr>"

datatype cineEvent = CLIP_STARTED | CLIP_STOPPED

text \<open>
  A \<^verbatim>\<open>CinePlayContext\<close> is an object of getters and methods closed over a viewport or
  a volume.  Here it is the data closed over: the viewport id, the number of image ids
  read when the context was made and \<^verbatim>\<open>waitForRendered\<close> (stack), the viewport id and
  \<^verbatim>\<open>waitForRendered\<close> (video), the viewport id and the volume id (volume), the volume
  id (dynamic volume).
\<close>

datatype CinePlayContext =
    StackContext string int int
  | VideoContext string int
  | VolumeContext string string
  | DynamicVolumeContext string

text \<open>
  A timer's callback is a closure of a call of playClip: \<^verbatim>\<open>playClipAction\<close>, or
  \<^verbatim>\<open>playClipTimeoutHandler\<close>.  It is given by the variables of that call it refers
  to: the play context, the element, the id of the element's viewport (under which the
  tool data object is stored), \<^verbatim>\<open>isDynamicCinePlaying\<close> and, for the timeout handler,
  \<^verbatim>\<open>playClipTimeouts\<close>.  What a callback does when its timer fires is \<open>callHandler\<close>
  below.
\<close>

datatype timerHandler =
    PlayClipAction CinePlayContext nat string bool
  | PlayClipTimeoutHandler CinePlayContext nat string bool "int list"

text \<open>
  The calls with an effect outside the player, in the order made: the browser's timers,
  the events triggered, the video element and the scroll utilities of the core library.
\<close>

datatype cineEffect =
    SetTimeout nat timerHandler "int option"
  | SetInterval nat timerHandler real
  | ClearTimeout nat
  | ClearInterval nat
  | TriggerEvent nat cineEvent
  | VideoPause string
  | VideoSetPlaybackRate string real
  | VideoPlay string
  | CsScroll string int
  | VolumeScroll string int

text \<open>
  The state the player works on.  \<open>enabledElements\<close> is \<^verbatim>\<open>getEnabledElement\<close> (the id of
  the element's viewport, \<open>None\<close> for \<^verbatim>\<open>undefined\<close>), \<open>viewports\<close> the viewport objects by
  id, \<open>volumeObjects\<close> the volume objects by id and \<open>cachedVolume\<close> whether the cache
  holds them, \<open>dynamicVolumesPlayingMap\<close> the module's Map from volume id to element, in
  insertion order.  \<open>toolState\<close> is the tool data stored per viewport,
  \<open>waitForRenderedCount\<close> the counter of the stack or video play context of a viewport,
  \<open>nextTimerId\<close> the id the browser hands out next and \<open>cineEffects\<close> the calls made
  so far.
\<close>

record cineWorld =
  enabledElements :: "nat \<Rightarrow> string option"
  viewports :: "string \<Rightarrow> cineViewport"
  volumeObjects :: "string \<Rightarrow> imageVolume"
  cachedVolume :: "string \<Rightarrow> bool"
  toolState :: "string \<Rightarrow> playClipData option"
  dynamicVolumesPlayingMap :: "(string \<times> nat) list"
  waitForRenderedCount :: "string \<Rightarrow> int"
  nextTimerId :: nat
  cineEffects :: "cineEffect list"

text \<open>\<^verbatim>\<open>cache.getVolume\<close>.\<close>

definition volumeCache :: "cineWorld \<Rightarrow> string \<Rightarrow> imageVolume option" where
  "volumeCache w v = (if cachedVolume w v then Some (volumeObjects w v) else None)"

text \<open>
  Modelled from the spec: the module \<^verbatim>\<open>./state\<close> (addToolState, getToolState,
  getToolStateByViewportId) is not among the sources.  It keeps the tool data of each
  viewport under the viewport's id; \<^verbatim>\<open>getToolState(element)\<close> is the entry of the
  viewport the element is enabled on.
\<close>

definition getToolStateByViewportId :: "cineWorld \<Rightarrow> string \<Rightarrow> playClipData option" where
  "getToolStateByViewportId w vid = toolState w vid"

definition addToolState :: "string \<Rightarrow> playClipData \<Rightarrow> cineWorld \<Rightarrow> cineWorld" where
  "addToolState vid d w = w\<lparr>toolState := (toolState w)(vid \<mapsto> d)\<rparr>"

text \<open>An assignment to a field of the tool data object of viewport \<open>vid\<close>.\<close>

definition updateToolState :: "string \<Rightarrow> (playClipData \<Rightarrow> playClipData) \<Rightarrow> cineWorld \<Rightarrow> cineWorld" where
  "updateToolState vid f w =
     (case toolState w vid of
        None \<Rightarrow> w
      | Some d \<Rightarrow> w\<lparr>toolState := (toolState w)(vid \<mapsto> f d)\<rparr>)"

definition emit :: "cineEffect \<Rightarrow> cineWorld \<Rightarrow> cineWorld" where
  "emit e w = w\<lparr>cineEffects := cineEffects w @ [e]\<rparr>"

definition triggerEvent :: "nat \<Rightarrow> cineEvent \<Rightarrow> cineWorld \<Rightarrow> cineWorld" where
  "triggerEvent el ev w = emit (TriggerEvent el ev) w"

text \<open>The operations of the Map: \<^verbatim>\<open>get\<close>, \<^verbatim>\<open>delete\<close>, \<^verbatim>\<open>set\<close>.\<close>

definition mapGet :: "(string \<times> nat) list \<Rightarrow> string \<Rightarrow> nat option" where
  "mapGet m k = map_of m k"

definition mapDelete :: "string \<Rightarrow> (string \<times> nat) list \<Rightarrow> (string \<times> nat) list" where
  "mapDelete k m = filter (\<lambda>kv. fst kv \<noteq> k) m"

definition mapSet :: "string \<Rightarrow> nat \<Rightarrow> (string \<times> nat) list \<Rightarrow> (string \<times> nat) list" where
  "mapSet k v m = (if map_of m k = None then m @ [(k, v)]
                   else map (\<lambda>kv. if fst kv = k then (k, v) else kv) m)"

subsection \<open>Stopping a clip\<close>

text \<open>\<^verbatim>\<open>_stopClipWithData\<close>, on the tool data of viewport \<open>vid\<close>.\<close>

definition stopClipWithData :: "string \<Rightarrow> cineWorld \<Rightarrow> cineWorld" where
  "stopClipWithData vid w =
     (case toolState w vid of
        None \<Rightarrow> w
      | Some playClipData \<Rightarrow>
          (case intervalId playClipData of
             None \<Rightarrow> w
           | Some id' \<Rightarrow>
               emit (if usingFrameTimeVector playClipData then ClearTimeout id' else ClearInterval id')
                 (updateToolState vid (\<lambda>d. d\<lparr>intervalId := None\<rparr>) w)))"

text \<open>
  \<^verbatim>\<open>_getVolumeFromViewport\<close>: the volume with its id, \<open>None\<close> for \<^verbatim>\<open>undefined\<close>.
\<close>

definition getVolumeFromViewport :: "cineWorld \<Rightarrow> cineViewport \<Rightarrow> (string \<times> imageVolume) option" where
  "getVolumeFromViewport w viewport =
     (if viewportClass viewport \<noteq> VolumeViewport then None
      else
        (let volumeIds = allVolumeIds viewport in
         if volumeIds = [] then None
         else
           (let dynamicVolumeId =
                  find (\<lambda>v. case volumeCache w v of None \<Rightarrow> False | Some vol \<Rightarrow> isDynamicVolume vol)
                    volumeIds;
                volumeId = (case dynamicVolumeId of Some v \<Rightarrow> v | None \<Rightarrow> volumeIds ! 0)
            in case volumeCache w volumeId of
                 None \<Rightarrow> None
               | Some vol \<Rightarrow> Some (volumeId, vol))))"

text \<open>
  \<^verbatim>\<open>_stopClip\<close> and \<^verbatim>\<open>_stopDynamicVolumeCine\<close> call each other through
  \<^verbatim>\<open>stopClip(dynamicCineElement)\<close>, which is \<^verbatim>\<open>_stopClip\<close> with
  \<^verbatim>\<open>{ stopDynamicCine: true }\<close>.  A viewport id counts only when it is a non-empty
  string (\<^verbatim>\<open>if (viewportId)\<close>).  Each round of the recursion deletes an entry of the Map.
\<close>

function stopClip' :: "nat \<Rightarrow> bool \<Rightarrow> string option \<Rightarrow> cineWorld \<Rightarrow> (error + unit) \<times> cineWorld"
  and stopDynamicVolumeCine :: "nat \<Rightarrow> cineWorld \<Rightarrow> (error + unit) \<times> cineWorld"
where
  "stopClip' el stopDynamicCine viewportId0 w =
     (case enabledElements w el of
        None \<Rightarrow>
          (case viewportId0 of
             None \<Rightarrow> (Inr (), w)
           | Some vid \<Rightarrow>
               if vid = [] then (Inr (), w)
               else (Inr (), stopClipWithData vid w))
      | Some vid \<Rightarrow>
          if viewportClass (viewports w vid) = VideoViewport
          then (Inr (), emit (VideoPause vid) (stopClipWithData vid w))
          else if stopDynamicCine \<and> instanceofBaseVolumeViewport (viewportClass (viewports w vid))
          then stopDynamicVolumeCine el (stopClipWithData vid w)
          else (Inr (), stopClipWithData vid w))"
| "stopDynamicVolumeCine el w =
     (case enabledElements w el of
        None \<Rightarrow> (Inl TypeError, w)
      | Some vid \<Rightarrow>
          if viewportClass (viewports w vid) = VolumeViewport then
            (case getVolumeFromViewport w (viewports w vid) of
               None \<Rightarrow> (Inr (), w)
             | Some volume \<Rightarrow>
                 if isDynamicVolume (snd volume) then
                   (case mapGet (dynamicVolumesPlayingMap w) (fst volume) of
                      None \<Rightarrow>
                        (Inr (), w\<lparr>dynamicVolumesPlayingMap :=
                                    mapDelete (fst volume) (dynamicVolumesPlayingMap w)\<rparr>)
                    | Some dynamicCineElement \<Rightarrow>
                        if dynamicCineElement \<noteq> el
                        then stopClip' dynamicCineElement True None
                               (w\<lparr>dynamicVolumesPlayingMap :=
                                    mapDelete (fst volume) (dynamicVolumesPlayingMap w)\<rparr>)
                        else (Inr (), w\<lparr>dynamicVolumesPlayingMap :=
                                         mapDelete (fst volume) (dynamicVolumesPlayingMap w)\<rparr>))
                 else (Inr (), w))
          else (Inr (), w))"
  by pat_completeness auto

lemma mapDelete_shorter:
  "mapGet m k = Some e \<Longrightarrow> length (mapDelete k m) < length m"
proof -
  assume "mapGet m k = Some e"
  then have "(k, e) \<in> set m" by (simp add: mapGet_def map_of_SomeD)
  then show ?thesis unfolding mapDelete_def by (rule length_filter_less) simp
qed

lemma stopClipWithData_map [simp]:
  "dynamicVolumesPlayingMap (stopClipWithData vid w) = dynamicVolumesPlayingMap w"
  by (simp add: stopClipWithData_def updateToolState_def emit_def split: option.splits)

termination stopClip'
  by (relation "measure (\<lambda>x. case x of
          Inl (el, s, v, w) \<Rightarrow> 2 * length (dynamicVolumesPlayingMap w) + 1
        | Inr (el, w) \<Rightarrow> 2 * length (dynamicVolumesPlayingMap w))")
     (auto dest: mapDelete_shorter)

declare stopClip'.simps [simp del] stopDynamicVolumeCine.simps [simp del]

text \<open>\<^verbatim>\<open>stopClip(element, options = {})\<close>: the options may override \<^verbatim>\<open>stopDynamicCine\<close>.\<close>

definition stopClip :: "nat \<Rightarrow> bool option \<Rightarrow> string option \<Rightarrow> cineWorld \<Rightarrow> (error + unit) \<times> cineWorld" where
  "stopClip el stopDynamicCine0 viewportId0 w =
     stopClip' el (case stopDynamicCine0 of None \<Rightarrow> True | Some b \<Rightarrow> b) viewportId0 w"

subsection \<open>Play contexts\<close>

text \<open>The members of a \<^verbatim>\<open>CinePlayContext\<close>, which read the live objects of the state.\<close>

fun numScrollSteps :: "CinePlayContext \<Rightarrow> cineWorld \<Rightarrow> int" where
  "numScrollSteps (StackContext vid n wfr) w = n"
| "numScrollSteps (VideoContext vid wfr) w = numberOfSlices (viewports w vid)"
| "numScrollSteps (VolumeContext vid vol) w = scrollInfoNumScrollSteps (viewports w vid)"
| "numScrollSteps (DynamicVolumeContext vol) w = numDimensionGroups (volumeObjects w vol)"

fun currentStepIndex :: "CinePlayContext \<Rightarrow> cineWorld \<Rightarrow> int" where
  "currentStepIndex (StackContext vid n wfr) w = targetImageIdIndex (viewports w vid)"
| "currentStepIndex (VideoContext vid wfr) w = sliceIndex (viewports w vid)"
| "currentStepIndex (VolumeContext vid vol) w = scrollInfoCurrentStepIndex (viewports w vid)"
| "currentStepIndex (DynamicVolumeContext vol) w = dimensionGroupNumber (volumeObjects w vol) - 1"

fun frameTimeVectorEnabled :: "CinePlayContext \<Rightarrow> cineWorld \<Rightarrow> bool" where
  "frameTimeVectorEnabled (StackContext vid n wfr) w = True"
| "frameTimeVectorEnabled (VideoContext vid wfr) w = True"
| "frameTimeVectorEnabled (VolumeContext vid vol) w = inAcquiredOrientation (viewports w vid)"
| "frameTimeVectorEnabled (DynamicVolumeContext vol) w = False"

text \<open>Only the context of a video viewport has a \<^verbatim>\<open>play\<close> method.\<close>

fun hasPlay :: "CinePlayContext \<Rightarrow> bool" where
  "hasPlay (VideoContext vid wfr) = True"
| "hasPlay ctx = False"

text \<open>
  \<^verbatim>\<open>scroll(delta)\<close>.  The scroll utilities belong to the core library: the call is
  recorded, and whether it throws is the parameter \<open>scrollError\<close> (\<open>None\<close>: it returns).
\<close>

definition waitOrScroll :: "string \<Rightarrow> int \<Rightarrow> error option \<Rightarrow> int \<Rightarrow> cineWorld \<Rightarrow> (error + unit) \<times> cineWorld" where
  "waitOrScroll vid wfr scrollError delta w =
     (if waitForRenderedCount w vid \<le> wfr \<and> \<not> statusRendered (viewports w vid)
      then (Inr (), w\<lparr>waitForRenderedCount := (waitForRenderedCount w)(vid := waitForRenderedCount w vid + 1)\<rparr>)
      else
        (let w1 = emit (CsScroll vid delta)
                    (w\<lparr>waitForRenderedCount := (waitForRenderedCount w)(vid := 0)\<rparr>)
         in case scrollError of None \<Rightarrow> (Inr (), w1) | Some e \<Rightarrow> (Inl e, w1)))"

fun scroll :: "CinePlayContext \<Rightarrow> error option \<Rightarrow> int \<Rightarrow> cineWorld \<Rightarrow> (error + unit) \<times> cineWorld" where
  "scroll (StackContext vid n wfr) scrollError delta w = waitOrScroll vid wfr scrollError delta w"
| "scroll (VideoContext vid wfr) scrollError delta w = waitOrScroll vid wfr scrollError delta w"
| "scroll (VolumeContext vid vol) scrollError delta w =
     (let vp = viewports w vid;
          w1 = emit (CsScroll vid delta)
                 (w\<lparr>viewports := (viewports w)
                      (vid := vp\<lparr>scrollInfoCurrentStepIndex := scrollInfoCurrentStepIndex vp + delta\<rparr>)\<rparr>)
      in case scrollError of None \<Rightarrow> (Inr (), w1) | Some e \<Rightarrow> (Inl e, w1))"
| "scroll (DynamicVolumeContext vol) scrollError delta w =
     (let w1 = emit (VolumeScroll vol delta) w
      in case scrollError of None \<Rightarrow> (Inr (), w1) | Some e \<Rightarrow> (Inl e, w1))"

text \<open>\<^verbatim>\<open>play(fps)\<close> of the video context: the frame rate it returns, and the state.\<close>

definition play ::
  "(real \<Rightarrow> real \<Rightarrow> real) \<Rightarrow> string \<Rightarrow> real option \<Rightarrow> cineWorld \<Rightarrow> real \<times> cineWorld" where
  "play jsDiv vid fps w =
     (let w1 = (case fps of
                  None \<Rightarrow> w
                | Some f \<Rightarrow> if f \<noteq> 0 then emit (VideoSetPlaybackRate vid (jsDiv f 24)) w else w)
      in (frameRate (viewports w1 vid), emit (VideoPlay vid) w1))"

text \<open>
  \<^verbatim>\<open>_createCinePlayContext\<close>.  A new stack or video context starts with
  \<^verbatim>\<open>waitForRenderedCount: 0\<close>.
\<close>

definition createCinePlayContext ::
  "string \<Rightarrow> PlayClipOptions \<Rightarrow> cineWorld \<Rightarrow> (error + CinePlayContext) \<times> cineWorld" where
  "createCinePlayContext vid playClipOptions w =
     (let viewport = viewports w vid;
          wfr = (case optWaitForRendered playClipOptions of None \<Rightarrow> 30 | Some n \<Rightarrow> n)
      in if viewportClass viewport = StackViewport then
           (Inr (StackContext vid (imageIdsLength viewport) wfr),
            w\<lparr>waitForRenderedCount := (waitForRenderedCount w)(vid := 0)\<rparr>)
         else if viewportClass viewport = VolumeViewport then
           (case getVolumeFromViewport w viewport of
              None \<Rightarrow> (Inl TypeError, w)
            | Some volume \<Rightarrow>
                if optDynamicCineEnabled playClipOptions = Some True \<and> isDynamicVolume (snd volume)
                then (Inr (DynamicVolumeContext (fst volume)), w)
                else (Inr (VolumeContext vid (fst volume)), w))
         else if viewportClass viewport = VideoViewport then
           (Inr (VideoContext vid wfr),
            w\<lparr>waitForRenderedCount := (waitForRenderedCount w)(vid := 0)\<rparr>)
         else (Inl (Error ''Unknown viewport type''), w))"

subsection \<open>The tick and the start of a clip\<close>

text \<open>
  The end of \<^verbatim>\<open>playClipAction\<close>, from \<^verbatim>\<open>const delta\<close>: the scroll to the new step
  index, inside its \<^verbatim>\<open>try\<close>.
\<close>

definition scrollToStep ::
  "CinePlayContext \<Rightarrow> nat \<Rightarrow> string \<Rightarrow> error option \<Rightarrow> int \<Rightarrow> int \<Rightarrow> cineWorld \<Rightarrow> cineWorld" where
  "scrollToStep ctx el vid scrollError curStepIndex newStepIndex w =
     (let delta = newStepIndex - curStepIndex
      in if delta \<noteq> 0 then
           (case scroll ctx scrollError delta w of
              (Inr u, w1) \<Rightarrow> w1
            | (Inl e, w1) \<Rightarrow> triggerEvent el CLIP_STOPPED (stopClipWithData vid w1))
         else w)"

text \<open>
  \<^verbatim>\<open>playClipAction\<close>, the closure made by a call of playClip on element \<open>el\<close> whose
  viewport has id \<open>vid\<close>: \<open>ctx\<close> is its play context, the tool data is the object stored
  for \<open>vid\<close>, \<open>isDynamicCinePlaying\<close> the flag of that call.  A tick without tool data
  cannot happen (playClip stores the data before it starts a timer); it is a TypeError.
\<close>

definition playClipAction ::
  "CinePlayContext \<Rightarrow> nat \<Rightarrow> string \<Rightarrow> bool \<Rightarrow> error option \<Rightarrow> cineWorld \<Rightarrow> (error + unit) \<times> cineWorld" where
  "playClipAction ctx el vid isDynamicCinePlaying scrollError w =
     (case toolState w vid of
        None \<Rightarrow> (Inl TypeError, w)
      | Some playClipData \<Rightarrow>
          (let n = numScrollSteps ctx w;
               cur = currentStepIndex ctx w;
               newStepIndex = cur + (if reverse playClipData then -1 else 1);
               outOfRange = (newStepIndex < 0 \<or> newStepIndex \<ge> n)
           in if outOfRange then
                (if bounce playClipData then
                   (let w1 = updateToolState vid (\<lambda>d. d\<lparr>reverse := \<not> reverse d\<rparr>) w;
                        newStepIndex1 = cur + (if \<not> reverse playClipData then -1 else 1);
                        newStepIndex2 = max 0 (min (n - 1) newStepIndex1)
                    in (Inr (), scrollToStep ctx el vid scrollError cur newStepIndex2 w1))
                 else if \<not> loop playClipData then
                   (case stopClip' el (\<not> isDynamicCinePlaying) (Some vid) w of
                      (Inl e, w1) \<Rightarrow> (Inl e, w1)
                    | (Inr u, w1) \<Rightarrow> (Inr (), triggerEvent el CLIP_STOPPED w1))
                 else
                   (Inr (), scrollToStep ctx el vid scrollError cur
                              (if reverse playClipData then n - 1 else 0) w))
              else (Inr (), scrollToStep ctx el vid scrollError cur newStepIndex w)))"

text \<open>\<^verbatim>\<open>window.setTimeout\<close> and \<^verbatim>\<open>window.setInterval\<close>: the id returned, and the state.\<close>

definition setTimeout :: "timerHandler \<Rightarrow> int option \<Rightarrow> cineWorld \<Rightarrow> nat \<times> cineWorld" where
  "setTimeout h delay w =
     (nextTimerId w, emit (SetTimeout (nextTimerId w) h delay) (w\<lparr>nextTimerId := nextTimerId w + 1\<rparr>))"

definition setInterval :: "timerHandler \<Rightarrow> real \<Rightarrow> cineWorld \<Rightarrow> nat \<times> cineWorld" where
  "setInterval h period w =
     (nextTimerId w, emit (SetInterval (nextTimerId w) h period) (w\<lparr>nextTimerId := nextTimerId w + 1\<rparr>))"

text \<open>
  \<^verbatim>\<open>playClipTimeoutHandler\<close>: it arms the next timeout with the delay of the current
  step (\<^verbatim>\<open>undefined\<close> past the ends of the array), then runs the tick.
\<close>

definition playClipTimeoutHandler ::
  "CinePlayContext \<Rightarrow> nat \<Rightarrow> string \<Rightarrow> bool \<Rightarrow> int list \<Rightarrow> error option \<Rightarrow> cineWorld \<Rightarrow>
   (error + unit) \<times> cineWorld" where
  "playClipTimeoutHandler ctx el vid isDynamicCinePlaying playClipTimeouts scrollError w =
     (case setTimeout (PlayClipTimeoutHandler ctx el vid isDynamicCinePlaying playClipTimeouts)
             (jsGet playClipTimeouts (currentStepIndex ctx w)) w of
        (id', w1) \<Rightarrow>
          playClipAction ctx el vid isDynamicCinePlaying scrollError
            (updateToolState vid (\<lambda>d. d\<lparr>intervalId := Some id'\<rparr>) w1))"

text \<open>
  The call the browser makes when a timer fires: the body of the closure.
\<close>

definition callHandler :: "timerHandler \<Rightarrow> error option \<Rightarrow> cineWorld \<Rightarrow> (error + unit) \<times> cineWorld" where
  "callHandler h scrollError w =
     (case h of
        PlayClipAction ctx el vid isDynamicCinePlaying \<Rightarrow>
          playClipAction ctx el vid isDynamicCinePlaying scrollError w
      | PlayClipTimeoutHandler ctx el vid isDynamicCinePlaying playClipTimeouts \<Rightarrow>
          playClipTimeoutHandler ctx el vid isDynamicCinePlaying playClipTimeouts scrollError w)"

text \<open>
  The options as playClip works with them: \<^verbatim>\<open>{}\<close> when none were given, and
  \<^verbatim>\<open>dynamicCineEnabled\<close> set to \<^verbatim>\<open>dynamicCineEnabled ?? true\<close>.
\<close>

definition withDefaults :: "PlayClipOptions option \<Rightarrow> PlayClipOptions" where
  "withDefaults playClipOptions0 =
     (let options1 = (case playClipOptions0 of None \<Rightarrow> noOptions | Some opts \<Rightarrow> opts)
      in options1\<lparr>optDynamicCineEnabled :=
           Some (case optDynamicCineEnabled options1 of None \<Rightarrow> True | Some b \<Rightarrow> b)\<rparr>)"

text \<open>
  The second half of playClip, from the line \<^verbatim>\<open>playClipData.dynamicCineEnabled = ...\<close>
  to the end: the tool data of viewport \<open>vid\<close> is updated from the options, the
  timeouts are computed when the frame time vector is to be used, and playback is
  started by the context's \<^verbatim>\<open>play\<close>, by a chained timeout or by an interval.  A missing
  tool data object is a TypeError (it cannot happen: the first half stores one).
\<close>

definition startClip ::
  "(real \<Rightarrow> real \<Rightarrow> real) \<Rightarrow> CinePlayContext \<Rightarrow> nat \<Rightarrow> string \<Rightarrow> PlayClipOptions \<Rightarrow> bool \<Rightarrow> cineWorld \<Rightarrow>
   (error + unit) \<times> cineWorld" where
  "startClip jsDiv playClipContext el vid playClipOptions isDynamicCinePlaying w3 =
     (let w4 = updateToolState vid (\<lambda>d. d\<lparr>dynamicCineEnabled := Some isDynamicCinePlaying\<rparr>) w3;
          w5 = (case optFramesPerSecond playClipOptions of
                  None \<Rightarrow> w4
                | Some f \<Rightarrow>
                    if f < 0 \<or> f > 0
                    then updateToolState vid
                           (\<lambda>d. d\<lparr>framesPerSecond := f, reverse := (f < 0),
                                 ignoreFrameTimeVector := True\<rparr>) w4
                    else w4)
      in
     (case toolState w5 vid of
        None \<Rightarrow> (Inl TypeError, w5)
      | Some playClipData \<Rightarrow>
     (let timeoutsResult =
            (case frameTimeVector playClipData of
               None \<Rightarrow> None
             | Some vector \<Rightarrow>
                 if ignoreFrameTimeVector playClipData \<noteq> True
                    \<and> int (length vector) = numScrollSteps playClipContext w5
                    \<and> frameTimeVectorEnabled playClipContext w5
                 then Some (getPlayClipTimeouts jsDiv vector (Some (speed playClipData)))
                 else None);
          w6 = (case optBounce playClipOptions of
                  None \<Rightarrow> w5
                | Some b \<Rightarrow> updateToolState vid (\<lambda>d. d\<lparr>bounce := b\<rparr>) w5);
          w7 = (if isDynamicCinePlaying then
                  (case getVolumeFromViewport w6 (viewports w6 vid) of
                     None \<Rightarrow> w6
                   | Some volume \<Rightarrow>
                       w6\<lparr>dynamicVolumesPlayingMap :=
                            mapSet (fst volume) el (dynamicVolumesPlayingMap w6)\<rparr>)
                else w6);
          w8 = (if hasPlay playClipContext then
                  (case play jsDiv vid (optFramesPerSecond playClipOptions) w7 of
                     (fps, w') \<Rightarrow> updateToolState vid (\<lambda>d. d\<lparr>framesPerSecond := fps\<rparr>) w')
                else
                  (case (case timeoutsResult of
                           None \<Rightarrow> None
                         | Some (playClipTimeouts, playClipIsTimeVarying) \<Rightarrow>
                             if length playClipTimeouts > 0 \<and> playClipIsTimeVarying
                             then Some playClipTimeouts else None) of
                     Some playClipTimeouts \<Rightarrow>
                       (case setTimeout
                               (PlayClipTimeoutHandler playClipContext el vid isDynamicCinePlaying
                                  playClipTimeouts) (Some 0)
                               (updateToolState vid (\<lambda>d. d\<lparr>usingFrameTimeVector := True\<rparr>) w7) of
                          (id', w') \<Rightarrow> updateToolState vid (\<lambda>d. d\<lparr>intervalId := Some id'\<rparr>) w')
                   | None \<Rightarrow>
                       (case setInterval
                               (PlayClipAction playClipContext el vid isDynamicCinePlaying)
                               (jsDiv 1000 \<bar>framesPerSecond playClipData\<bar>)
                               (updateToolState vid (\<lambda>d. d\<lparr>usingFrameTimeVector := False\<rparr>) w7) of
                          (id', w') \<Rightarrow> updateToolState vid (\<lambda>d. d\<lparr>intervalId := Some id'\<rparr>) w')))
      in (Inr (), triggerEvent el CLIP_STARTED w8))))"

text \<open>
  \<^verbatim>\<open>playClip(element, playClipOptions)\<close>; \<open>None\<close> is \<^verbatim>\<open>undefined\<close> for either argument,
  and \<open>jsDiv\<close> is the division of doubles.
  The first half: the checks of the element, the play context, the tool data of the
  viewport (made new, or its clip stopped), with every \<^verbatim>\<open>throw\<close> ending the call.
\<close>

definition playClip ::
  "(real \<Rightarrow> real \<Rightarrow> real) \<Rightarrow> nat option \<Rightarrow> PlayClipOptions option \<Rightarrow> cineWorld \<Rightarrow>
   (error + unit) \<times> cineWorld" where
  "playClip jsDiv element0 playClipOptions0 w =
     (case element0 of
        None \<Rightarrow> (Inl (Error ''playClip: element must not be undefined''), w)
      | Some el \<Rightarrow>
     (case enabledElements w el of
        None \<Rightarrow> (Inl (Error ''playClip: element must be a valid Cornerstone enabled element''), w)
      | Some vid \<Rightarrow>
     (let playClipOptions = withDefaults playClipOptions0;
          isDynamicCinePlaying = (optDynamicCineEnabled playClipOptions = Some True)
      in
     (case createCinePlayContext vid playClipOptions w of
        (Inl e, w1) \<Rightarrow> (Inl e, w1)
      | (Inr playClipContext, w1) \<Rightarrow>
     (let playClipData0 = toolState w1 vid in
     (case (if isDynamicCinePlaying then stopDynamicVolumeCine el w1 else (Inr (), w1)) of
        (Inl e, w2) \<Rightarrow> (Inl e, w2)
      | (Inr u, w2) \<Rightarrow>
     (case (case playClipData0 of
              None \<Rightarrow>
                (Inr (),
                 addToolState vid
                   \<lparr>intervalId = None, framesPerSecond = 30, lastFrameTimeStamp = None,
                    ignoreFrameTimeVector = False, usingFrameTimeVector = False,
                    frameTimeVector = optFrameTimeVector playClipOptions,
                    speed = (case optFrameTimeVectorSpeedMultiplier playClipOptions of
                               None \<Rightarrow> 1 | Some s \<Rightarrow> s),
                    reverse = (case optReverse playClipOptions of None \<Rightarrow> False | Some b \<Rightarrow> b),
                    loop = (case optLoop playClipOptions of None \<Rightarrow> True | Some b \<Rightarrow> b),
                    bounce = (case optBounce playClipOptions of None \<Rightarrow> False | Some b \<Rightarrow> b),
                    dynamicCineEnabled = None\<rparr> w2)
            | Some d \<Rightarrow> stopClip' el (\<not> isDynamicCinePlaying) (Some vid) w2) of
        (Inl e, w3) \<Rightarrow> (Inl e, w3)
      | (Inr u, w3) \<Rightarrow>
          startClip jsDiv playClipContext el vid playClipOptions isDynamicCinePlaying w3)))))))"

subsection \<open>Auxiliary notions for the proofs\<close>

text \<open>
  The effects a stop can have, the tool data with its timer id forgotten, and the
  relation between the states before and after stopping clips: nothing changes but
  timer ids being cleared and stop effects being appended.
\<close>

fun isStopEffect :: "cineEffect \<Rightarrow> bool" where
  "isStopEffect (ClearTimeout i) = True"
| "isStopEffect (ClearInterval i) = True"
| "isStopEffect (VideoPause v) = True"
| "isStopEffect e = False"

definition forgetInterval :: "playClipData \<Rightarrow> playClipData" where
  "forgetInterval d = d\<lparr>intervalId := None\<rparr>"

definition onlyStops :: "cineWorld \<Rightarrow> cineWorld \<Rightarrow> bool" where
  "onlyStops w w' \<longleftrightarrow>
     enabledElements w' = enabledElements w \<and> viewports w' = viewports w \<and>
     volumeObjects w' = volumeObjects w \<and> cachedVolume w' = cachedVolume w \<and>
     waitForRenderedCount w' = waitForRenderedCount w \<and> nextTimerId w' = nextTimerId w \<and>
     (\<exists>es. cineEffects w' = cineEffects w @ es \<and> list_all isStopEffect es) \<and>
     (\<forall>vid. toolState w' vid = toolState w vid
            \<or> toolState w' vid = map_option forgetInterval (toolState w vid))"

text \<open>
  Examples: element 0 enabled on the stack viewport \<open>vp\<close> of three images, showing the
  last one; no clip playing, or a clip playing with the given tool data.
\<close>

definition exampleStackViewport :: cineViewport where
  "exampleStackViewport =
     \<lparr>viewportClass = StackViewport, imageIdsLength = 3, targetImageIdIndex = 2,
      numberOfSlices = 0, sliceIndex = 0, frameRate = 0, scrollInfoNumScrollSteps = 0,
      scrollInfoCurrentStepIndex = 0, inAcquiredOrientation = True, allVolumeIds = [],
      statusRendered = True\<rparr>"

definition exampleWorld :: cineWorld where
  "exampleWorld =
     \<lparr>enabledElements = (\<lambda>e. if e = 0 then Some ''vp'' else None),
      viewports = (\<lambda>v. exampleStackViewport),
      volumeObjects = (\<lambda>v. \<lparr>isDynamicVolume = False, numDimensionGroups = 0, dimensionGroupNumber = 0\<rparr>),
      cachedVolume = (\<lambda>v. False),
      toolState = (\<lambda>v. None),
      dynamicVolumesPlayingMap = [],
      waitForRenderedCount = (\<lambda>v. 0),
      nextTimerId = 1,
      cineEffects = []\<rparr>"

definition examplePlayClipData :: playClipData where
  "examplePlayClipData =
     \<lparr>intervalId = Some 1, framesPerSecond = 30, lastFrameTimeStamp = None,
      ignoreFrameTimeVector = False, usingFrameTimeVector = False, frameTimeVector = None,
      speed = 1, reverse = False, loop = True, bounce = False, dynamicCineEnabled = Some True\<rparr>"

definition examplePlayingWorld :: "playClipData \<Rightarrow> cineWorld" where
  "examplePlayingWorld d = exampleWorld\<lparr>toolState := (\<lambda>v. Some d)\<rparr>"

text \<open>Options that give a frame time vector for the three images.\<close>

definition exampleVectorOptions :: PlayClipOptions where
  "exampleVectorOptions = noOptions\<lparr>optFrameTimeVector := Some [0, 30, 40]\<rparr>"



text \<open>Options that ask for 25 frames per second.\<close>

definition exampleFpsOptions :: PlayClipOptions where
  "exampleFpsOptions = noOptions\<lparr>optFramesPerSecond := Some 25\<rparr>"

chapter \<open>Properties\<close>

section \<open>convertMultiframeImageIds\<close>

lemma frameLoop_eq:
  "frameLoop md pre n i acc =
     acc @ filter (\<lambda>s. md s \<noteq> None) (map (\<lambda>k. pre @ string_of_nat (nat k)) [i + 1..n])"
proof (induction md pre n i acc rule: frameLoop.induct)
  case (1 md pre n i acc)
  show ?case
  proof (cases "i < n")
    case True
    then have u: "[i + 1..n] = (i + 1) # [i + 1 + 1..n]"
      by (subst upto.simps) simp
    show ?thesis
      using True "1.IH"[OF True refl refl]
      by (subst frameLoop.simps) (simp add: u Let_def)
  next
    case False
    then show ?thesis by (subst frameLoop.simps) simp
  qed
qed

lemma fold_convertOne:
  "fold (convertOne md) ids acc = acc @ concat (map (\<lambda>i. convertOne md i []) ids)"
proof (induction ids arbitrary: acc)
  case Nil show ?case by simp
next
  case (Cons a ids)
  have "convertOne md a acc = acc @ convertOne md a []"
    by (simp add: convertOne_def frameLoop_eq split: option.splits)
  then show ?case using Cons by simp
qed

lemma indexOf_first:
  "\<forall>j<length a. \<not> prefix pat (drop j (a @ pat @ b)) \<Longrightarrow>
     indexOf pat (a @ pat @ b) = int (length a)"
proof (induction a)
  case Nil
  show ?case
  proof (cases "pat @ b")
    case Nil
    then show ?thesis by simp
  next
    case (Cons c cs)
    have "prefix pat (pat @ b)" by simp
    then have "prefix pat (c # cs)" using Cons by simp
    then show ?thesis using Cons by simp
  qed
next
  case (Cons x a)
  have "\<not> prefix pat (drop j (a @ pat @ b))" if "j < length a" for j
  proof -
    from that have "Suc j < length (x # a)" by simp
    with Cons.prems have "\<not> prefix pat (drop (Suc j) ((x # a) @ pat @ b))" by blast
    then show ?thesis by simp
  qed
  then have ih: "indexOf pat (a @ pat @ b) = int (length a)" using Cons.IH by blast
  have "0 < length (x # a)" by simp
  with Cons.prems have "\<not> prefix pat (drop 0 ((x # a) @ pat @ b))" by blast
  then have np: "\<not> prefix pat (x # (a @ pat @ b))" by simp
  have "indexOf pat (x # (a @ pat @ b)) = int (length a) + 1"
    by (simp only: indexOf.simps np if_False ih Let_def) simp
  then show ?case by simp
qed

lemma imageIdFrameless_frames:
  assumes "\<forall>j<length a. \<not> prefix ''/frames/'' (drop j (a @ ''/frames/'' @ b))"
  shows "imageIdFrameless (a @ ''/frames/'' @ b) = a @ ''/frames/''"
proof -
  have "indexOf ''/frames/'' (a @ ''/frames/'' @ b) = int (length a)"
    using assms by (rule indexOf_first)
  then show ?thesis by (simp add: imageIdFrameless_def slice0_def nat_add_distrib)
qed

lemma framesPrefix_indexOf:
  "framesPrefix s = Some p \<Longrightarrow>
     8 \<le> length p \<and> indexOf ''/frames/'' s + 8 = int (length p) \<and> take (length p) s = p"
proof (induction s arbitrary: p)
  case Nil
  then show ?case by simp
next
  case (Cons c cs)
  show ?case
  proof (cases "prefix ''/frames/'' (c # cs)")
    case True
    have "framesPrefix (c # cs) = Some ''/frames/''"
      by (simp only: framesPrefix.simps True if_True)
    then have p: "p = ''/frames/''" using Cons.prems by simp
    from True obtain r where r: "c # cs = ''/frames/'' @ r" by (auto simp: prefix_def)
    have t: "take (length ''/frames/'') (c # cs) = ''/frames/''"
      unfolding r by (rule append_eq_conv_conj[THEN iffD1, THEN conjunct1, symmetric]) (rule refl)
    have i: "indexOf ''/frames/'' (c # cs) = 0"
      by (simp only: indexOf.simps True if_True)
    have l: "8 \<le> length ''/frames/''" "int (length ''/frames/'') = 8" by simp_all
    show ?thesis unfolding p i using t l by (intro conjI) simp_all
  next
    case False
    have "framesPrefix (c # cs) = map_option ((#) c) (framesPrefix cs)"
      by (simp only: framesPrefix.simps False if_False)
    then have "map_option ((#) c) (framesPrefix cs) = Some p" using Cons.prems by simp
    then obtain p' where p': "framesPrefix cs = Some p'" and p: "p = c # p'"
      by auto
    from Cons.IH[OF p'] have ih: "8 \<le> length p'"
      "indexOf ''/frames/'' cs + 8 = int (length p')" "take (length p') cs = p'"
      by simp_all
    have k: "indexOf ''/frames/'' cs \<noteq> - 1" using ih(1,2) by linarith
    have "indexOf ''/frames/'' (c # cs) = indexOf ''/frames/'' cs + 1"
      by (simp only: indexOf.simps False if_False Let_def k)
    then show ?thesis unfolding p using ih by simp
  qed
qed

lemma imageIdFrameless_framesPrefix:
  assumes "framesPrefix iid = Some p"
  shows "imageIdFrameless iid = p"
proof -
  from framesPrefix_indexOf[OF assms]
  have "indexOf ''/frames/'' iid + 8 = int (length p)" "take (length p) iid = p"
    by simp_all
  then show ?thesis by (simp add: imageIdFrameless_def slice0_def)
qed

text \<open>
  \<open>framesPrefix\<close> is the text up to and including the first \<^verbatim>\<open>/frames/\<close>, and it is
  \<open>None\<close> only for an id in which \<^verbatim>\<open>/frames/\<close> does not occur.
\<close>

lemma framesPrefix_first:
  assumes "\<forall>j<length a. \<not> prefix ''/frames/'' (drop j (a @ ''/frames/'' @ b))"
  shows "framesPrefix (a @ ''/frames/'' @ b) = Some (a @ ''/frames/'')"
  using assms
proof (induction a)
  case Nil
  then show ?case by simp
next
  case (Cons x a)
  have "\<not> prefix ''/frames/'' (drop j (a @ ''/frames/'' @ b))" if "j < length a" for j
  proof -
    from that have "Suc j < length (x # a)" by simp
    with Cons.prems have "\<not> prefix ''/frames/'' (drop (Suc j) ((x # a) @ ''/frames/'' @ b))" by blast
    then show ?thesis by simp
  qed
  then have ih: "framesPrefix (a @ ''/frames/'' @ b) = Some (a @ ''/frames/'')"
    using Cons.IH by blast
  have "0 < length (x # a)" by simp
  with Cons.prems have "\<not> prefix ''/frames/'' (drop 0 ((x # a) @ ''/frames/'' @ b))" by blast
  then have np: "\<not> prefix ''/frames/'' (x # (a @ ''/frames/'' @ b))" by simp
  have "framesPrefix (x # (a @ ''/frames/'' @ b)) = map_option ((#) x) (framesPrefix (a @ ''/frames/'' @ b))"
    by (simp only: framesPrefix.simps np if_False)
  then show ?case using ih by simp
qed

lemma framesPrefix_None:
  "framesPrefix s = None \<Longrightarrow> \<not> prefix ''/frames/'' (drop j s)"
proof (induction s arbitrary: j)
  case Nil
  then show ?case by simp
next
  case (Cons c cs)
  have np: "\<not> prefix ''/frames/'' (c # cs)"
  proof
    assume "prefix ''/frames/'' (c # cs)"
    then have "framesPrefix (c # cs) = Some ''/frames/''"
      by (simp only: framesPrefix.simps if_True)
    then show False using Cons.prems by simp
  qed
  have "framesPrefix (c # cs) = map_option ((#) c) (framesPrefix cs)"
    by (simp only: framesPrefix.simps np if_False)
  then have n: "framesPrefix cs = None"
    using Cons.prems by simp
  show ?case
  proof (cases j)
    case 0
    then show ?thesis using np by simp
  next
    case (Suc k)
    then show ?thesis using Cons.IH[OF n, of k] by simp
  qed
qed

text \<open>The loops as one expansion per image id, with the prefix the source computes.\<close>

lemma convertMultiframeImageIds_expand:
  "convertMultiframeImageIds md imageIds =
     concat (map (\<lambda>imageId.
       case md imageId of
         None \<Rightarrow> [imageId]
       | Some m \<Rightarrow>
           (case NumberOfFrames m of
              None \<Rightarrow> [imageId]
            | Some n \<Rightarrow>
                if n > 1
                then filter (\<lambda>s. md s \<noteq> None)
                       (map (\<lambda>f. imageIdFrameless imageId @ string_of_nat (nat f)) [1..n])
                else [imageId])) imageIds)"
proof -
  have one: "convertOne md imageId [] =
       (case md imageId of
         None \<Rightarrow> [imageId]
       | Some m \<Rightarrow>
           (case NumberOfFrames m of
              None \<Rightarrow> [imageId]
            | Some n \<Rightarrow>
                if n > 1
                then filter (\<lambda>s. md s \<noteq> None)
                       (map (\<lambda>f. imageIdFrameless imageId @ string_of_nat (nat f)) [1..n])
                else [imageId]))" for imageId
    by (simp add: convertOne_def frameLoop_eq split: option.splits)
  show ?thesis
    unfolding convertMultiframeImageIds_def fold_convertOne
    by (simp add: one)
qed

text \<open>
  Claim C9, amended.  Let every image id of the input list that has MultiframeModule
  metadata with NumberOfFrames \<open>n > 1\<close> contain \<^verbatim>\<open>/frames/\<close>, and let \<open>pre id\<close> be its
  text up to and including the first \<^verbatim>\<open>/frames/\<close>.  Then the result is the input list
  with every image id replaced, in place, by its expansion: an id without
  MultiframeModule metadata, or whose NumberOfFrames is absent or at most 1, stays as it
  is; an id with NumberOfFrames \<open>n > 1\<close> becomes the frame ids \<open>pre id @ f\<close> for
  \<open>f = 1..n\<close>, of which exactly those with metadata are kept.  Order is preserved and
  nothing else appears.
\<close>

theorem convertMultiframeImageIds_frames_prefix:
  assumes "\<forall>imageId \<in> set imageIds. \<forall>m n.
             md imageId = Some m \<longrightarrow> NumberOfFrames m = Some n \<longrightarrow> n > 1 \<longrightarrow>
             framesPrefix imageId = Some (pre imageId)"
  shows "convertMultiframeImageIds md imageIds =
     concat (map (\<lambda>imageId.
       case md imageId of
         None \<Rightarrow> [imageId]
       | Some m \<Rightarrow>
           (case NumberOfFrames m of
              None \<Rightarrow> [imageId]
            | Some n \<Rightarrow>
                if n > 1
                then filter (\<lambda>s. md s \<noteq> None)
                       (map (\<lambda>f. pre imageId @ string_of_nat (nat f)) [1..n])
                else [imageId])) imageIds)"
proof -
  have "(case md iid of
         None \<Rightarrow> [iid]
       | Some m \<Rightarrow>
           (case NumberOfFrames m of
              None \<Rightarrow> [iid]
            | Some n \<Rightarrow>
                if n > 1
                then filter (\<lambda>s. md s \<noteq> None)
                       (map (\<lambda>f. imageIdFrameless iid @ string_of_nat (nat f)) [1..n])
                else [iid]))
      = (case md iid of
         None \<Rightarrow> [iid]
       | Some m \<Rightarrow>
           (case NumberOfFrames m of
              None \<Rightarrow> [iid]
            | Some n \<Rightarrow>
                if n > 1
                then filter (\<lambda>s. md s \<noteq> None)
                       (map (\<lambda>f. pre iid @ string_of_nat (nat f)) [1..n])
                else [iid]))" if "iid \<in> set imageIds" for iid
  proof (cases "md iid")
    case None
    then show ?thesis by simp
  next
    case (Some m)
    show ?thesis
    proof (cases "NumberOfFrames m")
      case None
      then show ?thesis using Some by simp
    next
      case (Some n)
      show ?thesis
      proof (cases "n > 1")
        case True
        have "framesPrefix iid = Some (pre iid)"
          using assms that \<open>md iid = Some m\<close> Some True by blast
        then have "imageIdFrameless iid = pre iid"
          by (rule imageIdFrameless_framesPrefix)
        then show ?thesis using \<open>md iid = Some m\<close> Some True by simp
      next
        case False
        then show ?thesis using \<open>md iid = Some m\<close> Some by simp
      qed
    qed
  qed
  then show ?thesis
    unfolding convertMultiframeImageIds_expand
    by (intro arg_cong[where f = concat] map_cong refl)
qed

theorem convertMultiframeImageIds_frames_prefix_witness:
  "framesPrefix ''wadors:/s/1/frames/1'' = Some ''wadors:/s/1/frames/''
   \<and> convertMultiframeImageIds exampleMetaData
     [''wadors:/s/2/frames/1'', ''wadors:/s/1/frames/1'', ''wadouri:x'']
   = [''wadors:/s/2/frames/1'', ''wadors:/s/1/frames/1'', ''wadors:/s/1/frames/3'', ''wadouri:x'']"
proof -
  have u: "[1..3] = [1, 2, 3::int]" by (simp add: upto.simps)
  have f: "framesPrefix ''wadors:/s/1/frames/1'' = Some ''wadors:/s/1/frames/''"
    by simp
  have s: "string_of_nat (Suc 0) = ''1''" "string_of_nat 2 = ''2''" "string_of_nat 3 = ''3''"
    by (simp_all add: string_of_nat.simps digit_def)
  have m: "exampleMetaData ''wadors:/s/2/frames/1'' = Some \<lparr>NumberOfFrames = Some 1\<rparr>"
    "exampleMetaData ''wadors:/s/1/frames/1'' = Some \<lparr>NumberOfFrames = Some 3\<rparr>"
    "exampleMetaData ''wadors:/s/1/frames/2'' = None"
    "exampleMetaData ''wadors:/s/1/frames/3'' = Some \<lparr>NumberOfFrames = Some 3\<rparr>"
    "exampleMetaData ''wadouri:x'' = None"
    by (simp_all add: exampleMetaData_def)
  have h: "\<forall>imageId \<in> set [''wadors:/s/2/frames/1'', ''wadors:/s/1/frames/1'', ''wadouri:x''].
      \<forall>m n. exampleMetaData imageId = Some m \<longrightarrow> NumberOfFrames m = Some n \<longrightarrow> n > 1 \<longrightarrow>
        framesPrefix imageId = Some ((\<lambda>i. ''wadors:/s/1/frames/'') imageId)"
    using f by (auto simp: m)
  show ?thesis
    using convertMultiframeImageIds_frames_prefix[OF h] f
    by (simp add: u s m)
qed

text \<open>
  The claim as it was made, for every input list, fails on a multiframe id without
  \<^verbatim>\<open>/frames/\<close>: \<^verbatim>\<open>indexOf\<close> is -1, the prefix taken is the first 7 characters of the id,
  and the two-frame id \<^verbatim>\<open>wadouri:file.dcm\<close> is replaced by \<^verbatim>\<open>wadouri1\<close> and
  \<^verbatim>\<open>wadouri2\<close>.
\<close>

theorem convertMultiframeImageIds_without_frames:
  "convertMultiframeImageIds exampleWadouriMetaData [''wadouri:file.dcm'']
     = [''wadouri1'', ''wadouri2'']
   \<and> framesPrefix ''wadouri:file.dcm'' = None"
proof -
  have u: "[1..2] = [1, 2::int]" by (simp add: upto.simps)
  have f: "imageIdFrameless ''wadouri:file.dcm'' = ''wadouri''"
    by (simp add: imageIdFrameless_def slice0_def)
  have s: "string_of_nat (Suc 0) = ''1''" "string_of_nat 2 = ''2''"
    by (simp_all add: string_of_nat.simps digit_def)
  have m: "exampleWadouriMetaData ''wadouri:file.dcm'' = Some \<lparr>NumberOfFrames = Some 2\<rparr>"
    "exampleWadouriMetaData ''wadouri1'' = Some \<lparr>NumberOfFrames = Some 1\<rparr>"
    "exampleWadouriMetaData ''wadouri2'' = Some \<lparr>NumberOfFrames = Some 1\<rparr>"
    by (simp_all add: exampleWadouriMetaData_def)
  have "convertMultiframeImageIds exampleWadouriMetaData [''wadouri:file.dcm'']
     = [''wadouri1'', ''wadouri2'']"
    unfolding convertMultiframeImageIds_expand
    by (simp add: u f s m)
  moreover have "framesPrefix ''wadouri:file.dcm'' = None" by simp
  ultimately show ?thesis ..
qed

section \<open>fillOutsideSphere\<close>

text \<open>
  Claim C10.  Every call of fillOutsideSphere throws the Error
  \<^verbatim>\<open>fill outside sphere not implemented\<close>, whatever the arguments and the state, and
  leaves the state as it was.
\<close>

theorem fillOutsideSphere_throws:
  "fillOutsideSphere args st = (Inl (Error ''fill outside sphere not implemented''), st)"
  by (simp add: fillOutsideSphere_def)

section \<open>getPlayClipTimeouts\<close>

lemma timeoutsLoop_from:
  "2 \<le> i \<Longrightarrow> sample st = Some s0 \<Longrightarrow>
   timeoutsLoop jsDiv vector sp i st =
     st\<lparr>timeouts := timeouts st @ map (\<lambda>x. toInt32 (jsDiv x sp)) (drop i vector),
        isTimeVarying := isTimeVarying st \<or> (\<exists>d \<in> set (map (\<lambda>x. toInt32 (jsDiv x sp)) (drop i vector)). d \<noteq> s0),
        sum_acc := sum_acc st + sum_list (map (\<lambda>x. toInt32 (jsDiv x sp)) (drop i vector))\<rparr>"
proof (induction jsDiv vector sp i st rule: timeoutsLoop.induct)
  case (1 jsDiv vector sp i st)
  show ?case
  proof (cases "i < length vector")
    case True
    let ?d = "toInt32 (jsDiv (vector ! i) sp)"
    let ?st1 = "st\<lparr>timeouts := timeouts st @ [?d]\<rparr>"
    let ?st2 = "(if i = 1 then ?st1\<lparr>sample := Some ?d\<rparr>
                    else if Some ?d \<noteq> sample ?st1 then ?st1\<lparr>isTimeVarying := True\<rparr>
                    else ?st1)"
    let ?st3 = "?st2\<lparr>sum_acc := sum_acc ?st2 + ?d\<rparr>"
    have dr: "drop i vector = vector ! i # drop (i + 1) vector"
      using True by (simp add: Cons_nth_drop_Suc)
    have s3: "sample ?st3 = Some s0" using "1.prems" by simp
    have step: "timeoutsLoop jsDiv vector sp i st = timeoutsLoop jsDiv vector sp (i + 1) ?st3"
      using True by (subst timeoutsLoop.simps) (simp add: Let_def)
    have "timeoutsLoop jsDiv vector sp (i + 1) ?st3 = ?st3\<lparr>timeouts := timeouts ?st3 @ map (\<lambda>x. toInt32 (jsDiv x sp)) (drop (i + 1) vector),
        isTimeVarying := isTimeVarying ?st3 \<or> (\<exists>d \<in> set (map (\<lambda>x. toInt32 (jsDiv x sp)) (drop (i + 1) vector)). d \<noteq> s0),
        sum_acc := sum_acc ?st3 + sum_list (map (\<lambda>x. toInt32 (jsDiv x sp)) (drop (i + 1) vector))\<rparr>"
      by (rule "1.IH"[OF True refl refl refl _ s3]) (use "1.prems" in simp)
    then show ?thesis
      unfolding step dr using "1.prems" by auto
  next
    case False
    then show ?thesis by (subst timeoutsLoop.simps) simp
  qed
qed


lemma timeoutsLoop_all:
  "timeoutsLoop jsDiv vector sp 1 \<lparr>timeouts = [], sample = None, isTimeVarying = False, sum_acc = 0\<rparr> =
     (let ds = map (\<lambda>x. toInt32 (jsDiv x sp)) (tl vector)
      in \<lparr>timeouts = ds, sample = (if ds = [] then None else Some (hd ds)),
          isTimeVarying = (\<exists>d \<in> set ds. d \<noteq> hd ds), sum_acc = sum_list ds\<rparr>)"
proof (cases "1 < length vector")
  case True
  let ?d = "toInt32 (jsDiv (vector ! 1) sp)"
  let ?st3 = "\<lparr>timeouts = [?d], sample = Some ?d, isTimeVarying = False, sum_acc = ?d\<rparr>"
  have tl: "tl vector = vector ! 1 # drop 2 vector"
    using True by (metis Cons_nth_drop_Suc One_nat_def Suc_1 drop_0 drop_Suc)
  have step: "timeoutsLoop jsDiv vector sp 1 \<lparr>timeouts = [], sample = None, isTimeVarying = False, sum_acc = 0\<rparr>
      = timeoutsLoop jsDiv vector sp 2 ?st3"
    using True by (subst timeoutsLoop.simps) (simp add: Let_def numeral_2_eq_2)
  show ?thesis
    unfolding step by (subst timeoutsLoop_from[where ?s0.0 = ?d]) (simp_all add: tl Let_def)
next
  case False
  then have "tl vector = []" by (cases vector) simp_all
  then show ?thesis using False by (subst timeoutsLoop.simps) simp
qed

lemma getPlayClipTimeouts_eq:
  "getPlayClipTimeouts jsDiv vector speed0 =
     (let sp = (case speed0 of None \<Rightarrow> 1 | Some s \<Rightarrow> if s \<le> 0 then 1 else s);
          ds = map (\<lambda>x. toInt32 (jsDiv x sp)) (tl vector);
          tv = (\<exists>d \<in> set ds. d \<noteq> hd ds)
      in if ds = [] then ([], False)
         else (ds @ [if tv then toInt32 (jsDiv (real_of_int (sum_list ds)) (real (length ds))) else hd ds], tv))"
  unfolding getPlayClipTimeouts_def timeoutsLoop_all
  by (simp add: Let_def hd_conv_nth)

lemma toInt32_range: "- (2 ^ 31) \<le> toInt32 x \<and> toInt32 x < 2 ^ 31"
proof -
  have "0 \<le> trunc x mod 2 ^ 32" "trunc x mod 2 ^ 32 < 2 ^ 32" by simp_all
  then show ?thesis unfolding toInt32_def Let_def by (auto split: if_splits)
qed

lemma toInt32_trunc:
  assumes "- (2 ^ 31) \<le> trunc x" "trunc x < 2 ^ 31"
  shows "toInt32 x = trunc x"
proof (cases "0 \<le> trunc x")
  case True
  then have "trunc x mod 2 ^ 32 = trunc x" using assms by simp
  then show ?thesis using assms by (simp add: toInt32_def)
next
  case False
  then have "trunc x mod 2 ^ 32 = trunc x + 2 ^ 32"
    using assms by (intro mod_pos_pos_trivial[THEN trans[rotated], OF _ _ mod_add_self2[symmetric]]) simp_all
  then show ?thesis using assms False by (simp add: toInt32_def)
qed

lemma sum_list_bounds:
  fixes ds :: "int list"
  assumes "\<forall>d \<in> set ds. a \<le> d \<and> d \<le> b"
  shows "int (length ds) * a \<le> sum_list ds \<and> sum_list ds \<le> int (length ds) * b"
  using assms by (induction ds) (auto simp: algebra_simps)

lemma trunc_between:
  assumes "real_of_int a \<le> y" "y \<le> real_of_int b"
  shows "a \<le> trunc y \<and> trunc y \<le> b"
proof -
  have lo: "a \<le> \<lfloor>y\<rfloor>" using assms by (simp add: le_floor_iff)
  have hi: "\<lceil>y\<rceil> \<le> b" using assms by (simp add: ceiling_le_iff)
  have mid: "\<lfloor>y\<rfloor> \<le> \<lceil>y\<rceil>" by (rule floor_le_ceiling)
  have "a \<le> \<lceil>y\<rceil>" using lo mid by (rule order_trans)
  moreover have "\<lfloor>y\<rfloor> \<le> b" using mid hi by (rule order_trans)
  ultimately show ?thesis using lo hi by (simp add: trunc_def)
qed

lemma average_bounds:
  fixes ds :: "int list"
  assumes "ds \<noteq> []" "\<forall>d \<in> set ds. - (2 ^ 31) \<le> d \<and> d < 2 ^ 31"
  shows "real_of_int (- (2 ^ 31)) \<le> real_of_int (sum_list ds) / real (length ds)"
    and "real_of_int (sum_list ds) / real (length ds) \<le> real_of_int (2 ^ 31 - 1)"
proof -
  let ?n = "length ds"
  have n: "0 < real ?n" using assms(1) by simp
  have "\<forall>d \<in> set ds. - (2 ^ 31) \<le> d \<and> d \<le> 2 ^ 31 - 1" using assms(2) by auto
  from sum_list_bounds[OF this]
  have b: "int ?n * - (2 ^ 31) \<le> sum_list ds" "sum_list ds \<le> int ?n * (2 ^ 31 - 1)" by simp_all
  show "real_of_int (- (2 ^ 31)) \<le> real_of_int (sum_list ds) / real ?n"
  proof -
    have "real_of_int (int ?n * - (2 ^ 31)) \<le> real_of_int (sum_list ds)"
      using b(1) by (rule of_int_le_iff[THEN iffD2])
    then have "real_of_int (- (2 ^ 31)) * real ?n \<le> real_of_int (sum_list ds)"
      by (simp add: mult.commute)
    then show ?thesis using n by (simp add: pos_le_divide_eq)
  qed
  show "real_of_int (sum_list ds) / real ?n \<le> real_of_int (2 ^ 31 - 1)"
  proof -
    have "real_of_int (sum_list ds) \<le> real_of_int (int ?n * (2 ^ 31 - 1))"
      using b(2) by (rule of_int_le_iff[THEN iffD2])
    then have "real_of_int (sum_list ds) \<le> real_of_int (2 ^ 31 - 1) * real ?n"
      by (simp add: mult.commute)
    then show ?thesis using n by (simp add: pos_divide_le_eq)
  qed
qed

text \<open>
  While every quotient \<open>vector[i] / speed\<close> has an integral part within the signed 32-bit
  range, the function does what its comment says: the first element is dropped, each
  delay is the integral part of the quotient, \<open>isTimeVarying\<close> holds exactly when some delay
  differs from the first, the last delay is the integral part of the average (or a copy
  of the first delay), and the result is as long as the vector.  Of the division this
  needs that rounding does not cross an integer: a quotient between two integers is
  rounded to a double between them.
\<close>

lemma getPlayClipTimeouts_integral:
  assumes s: "s = (case speed0 of None \<Rightarrow> 1 | Some s \<Rightarrow> if s \<le> 0 then 1 else s)"
    and len: "2 \<le> length vector"
    and bound: "\<forall>x \<in> set (tl vector). - (2 ^ 31) \<le> trunc (jsDiv x s) \<and> trunc (jsDiv x s) < 2 ^ 31"
    and round: "\<And>a b lo hi. real_of_int lo \<le> a / b \<Longrightarrow> a / b \<le> real_of_int hi \<Longrightarrow>
                  real_of_int lo \<le> jsDiv a b \<and> jsDiv a b \<le> real_of_int hi"
  shows "getPlayClipTimeouts jsDiv vector speed0 =
     (let ds = map (\<lambda>x. trunc (jsDiv x s)) (tl vector);
          tv = (\<exists>d \<in> set ds. d \<noteq> hd ds)
      in (ds @ [if tv then trunc (jsDiv (real_of_int (sum_list ds)) (real (length ds))) else hd ds], tv))"
    and "length (fst (getPlayClipTimeouts jsDiv vector speed0)) = length vector"
proof -
  let ?ds = "map (\<lambda>x. trunc (jsDiv x s)) (tl vector)"
  have eq: "map (\<lambda>x. toInt32 (jsDiv x s)) (tl vector) = ?ds"
    using bound by (intro map_cong refl toInt32_trunc) auto
  have ne: "?ds \<noteq> []" using len by (cases vector) auto
  have rng: "\<forall>d \<in> set ?ds. - (2 ^ 31) \<le> d \<and> d < 2 ^ 31" using bound by auto
  have "real_of_int (- (2 ^ 31)) \<le> jsDiv (real_of_int (sum_list ?ds)) (real (length ?ds))
        \<and> jsDiv (real_of_int (sum_list ?ds)) (real (length ?ds)) \<le> real_of_int (2 ^ 31 - 1)"
    by (rule round[OF average_bounds[OF ne rng]])
  then have "- (2 ^ 31) \<le> trunc (jsDiv (real_of_int (sum_list ?ds)) (real (length ?ds)))
        \<and> trunc (jsDiv (real_of_int (sum_list ?ds)) (real (length ?ds))) \<le> 2 ^ 31 - 1"
    by (intro trunc_between) simp_all
  then have avg: "toInt32 (jsDiv (real_of_int (sum_list ?ds)) (real (length ?ds)))
           = trunc (jsDiv (real_of_int (sum_list ?ds)) (real (length ?ds)))"
    by (intro toInt32_trunc) simp_all
  show g: "getPlayClipTimeouts jsDiv vector speed0 =
     (let ds = ?ds; tv = (\<exists>d \<in> set ds. d \<noteq> hd ds)
      in (ds @ [if tv then trunc (jsDiv (real_of_int (sum_list ds)) (real (length ds))) else hd ds], tv))"
    unfolding getPlayClipTimeouts_eq s[symmetric] Let_def eq avg using ne by simp
  show "length (fst (getPlayClipTimeouts jsDiv vector speed0)) = length vector"
    unfolding g Let_def using len by simp
qed

text \<open>
  When the timeouts are time-varying there is one for each element of the vector,
  whatever the quotients are.
\<close>

lemma getPlayClipTimeouts_length:
  assumes "snd (getPlayClipTimeouts jsDiv vector speed0)"
  shows "length (fst (getPlayClipTimeouts jsDiv vector speed0)) = length vector"
proof -
  let ?sp = "case speed0 of None \<Rightarrow> 1 | Some s \<Rightarrow> if s \<le> 0 then 1 else s"
  have ne: "map (\<lambda>x. toInt32 (jsDiv x ?sp)) (tl vector) \<noteq> []"
    using assms unfolding getPlayClipTimeouts_eq Let_def by (auto split: if_splits)
  then have "vector \<noteq> []" by auto
  then have "length (tl vector) + 1 = length vector" by simp
  then show ?thesis
    using ne unfolding getPlayClipTimeouts_eq Let_def by simp
qed

text \<open>
  Claim C2.  The delay is the integral part of \<open>vector[i] / speed\<close> only up to 32 bits:
  for the frame time vector \<open>[0, 3000000000, 1]\<close> at speed 1, the integral part of the
  second quotient is 3000000000, and the delay produced for it is -1294967296.  (The
  quotients taken on this input, \<open>3000000000 / 1\<close>, \<open>1 / 1\<close> and \<open>-1294967295 / 2\<close>, are
  doubles: the division returns them unrounded.)
\<close>

theorem getPlayClipTimeouts_wraps:
  "getPlayClipTimeouts exactDivide [0, 3000000000, 1] (Some 1) = ([- 1294967296, 1, - 647483647], True)
   \<and> trunc (exactDivide 3000000000 1) = 3000000000"
  unfolding getPlayClipTimeouts_eq
  by (simp add: Let_def toInt32_def trunc_def exactDivide_def)

section \<open>eraseRectangle\<close>

lemma eraseCallback_length [simp]:
  "length (eraseCallback locked (v, off) sd) = length sd"
  by (simp add: eraseCallback_def jsSet_def split: option.splits)

lemma eraseStep_nth:
  assumes "n < length sd"
  shows "eraseCallback locked (jsGet sd off, off) sd ! n =
           (if off = int n \<and> sd ! n \<notin> set locked then 0 else sd ! n)"
  using assms by (auto simp: eraseCallback_def jsGet_def jsSet_def nth_list_update split: option.splits)

lemma visitAll_length [simp]: "length (visitAll locked offs sd) = length sd"
  unfolding visitAll_def by (induction offs arbitrary: sd) simp_all

lemma visitAll_snoc:
  "visitAll locked (offs @ [off]) sd =
     eraseCallback locked (jsGet (visitAll locked offs sd) off, off) (visitAll locked offs sd)"
  by (simp add: visitAll_def)

lemma visitAll_nth:
  "n < length sd \<Longrightarrow>
     visitAll locked offs sd ! n =
       (if int n \<in> set offs \<and> sd ! n \<notin> set locked then 0 else sd ! n)"
proof (induction offs rule: rev_induct)
  case Nil
  then show ?case by (simp add: visitAll_def)
next
  case (snoc off offs)
  then show ?case
    by (auto simp: visitAll_snoc eraseStep_nth)
qed

lemma fold_map_visit:
  "fold (\<lambda>i sd. eraseCallback locked (jsGet sd (f i), f i) sd) is sd = visitAll locked (map f is) sd"
  by (simp add: visitAll_def fold_map comp_def)

lemma visitAll_append:
  "visitAll locked (xs @ ys) sd = visitAll locked ys (visitAll locked xs sd)"
  by (simp add: visitAll_def)

lemma fold_visit_concat:
  "fold (\<lambda>x. visitAll locked (g x)) xs sd = visitAll locked (concat (map g xs)) sd"
  by (induction xs arbitrary: sd) (simp_all add: visitAll_append visitAll_def)

lemma pointInShapeCallback_erase:
  "pointInShapeCallback b dims (\<lambda>p. True) (eraseCallback locked) sd
     = visitAll locked (boxOffsets b dims) sd"
proof -
  obtain iMin iMax jMin jMax kMin kMax where b: "b = ((iMin, iMax), (jMin, jMax), (kMin, kMax))"
    by (metis prod.collapse)
  have inner: "\<And>j k. fold (\<lambda>i sd. eraseCallback locked
                    (jsGet sd (voxelOffset dims (i, j, k)), voxelOffset dims (i, j, k)) sd) [iMin..iMax]
                = visitAll locked (map (\<lambda>i. voxelOffset dims (i, j, k)) [iMin..iMax])"
    by (rule ext) (rule fold_map_visit)
  have mid: "\<And>k. fold (\<lambda>j. visitAll locked (map (\<lambda>i. voxelOffset dims (i, j, k)) [iMin..iMax])) [jMin..jMax]
                = visitAll locked (concat (map (\<lambda>j. map (\<lambda>i. voxelOffset dims (i, j, k)) [iMin..iMax]) [jMin..jMax]))"
    by (rule ext) (rule fold_visit_concat)
  show ?thesis
    unfolding b pointInShapeCallback_def boxOffsets_def
    by (simp add: inner mid fold_visit_concat)
qed

lemma voxelOffset_inj:
  assumes "0 \<le> i" "i < w" "0 \<le> j" "j < h" "0 \<le> i'" "i' < w" "0 \<le> j'" "j' < h"
    and eq: "voxelOffset (w, h, d) (i, j, k) = voxelOffset (w, h, d) (i', j', k')"
  shows "i = i' \<and> j = j' \<and> k = k'"
proof -
  have e: "(k * h + j) * w + i = (k' * h + j') * w + i'"
    using eq by (simp add: voxelOffset_def algebra_simps)
  have "((k * h + j) * w + i) mod w = i" using assms by simp
  moreover have "((k' * h + j') * w + i') mod w = i'" using assms by simp
  ultimately have i: "i = i'" using e by simp
  have "((k * h + j) * w + i) div w = k * h + j" using assms by simp
  moreover have "((k' * h + j') * w + i') div w = k' * h + j'" using assms by simp
  ultimately have e2: "k * h + j = k' * h + j'" using e by simp
  have "(k * h + j) mod h = j" using assms by simp
  moreover have "(k' * h + j') mod h = j'" using assms by simp
  ultimately have j: "j = j'" using e2 by simp
  have "(k * h + j) div h = k" using assms by simp
  moreover have "(k' * h + j') div h = k'" using assms by simp
  ultimately have "k = k'" using e2 by simp
  with i j show ?thesis by simp
qed

lemma voxelOffset_range:
  assumes "0 \<le> i" "i < w" "0 \<le> j" "j < h" "0 \<le> k" "k < d"
  shows "0 \<le> voxelOffset (w, h, d) (i, j, k) \<and> voxelOffset (w, h, d) (i, j, k) < w * h * d"
proof -
  have "k * (w * h) + j * w + i = (k * h + j) * w + i" by (simp add: algebra_simps)
  moreover have "0 \<le> (k * h + j) * w + i" using assms by simp
  moreover have "(k * h + j) * w + i < w * h * d"
  proof -
    have "k * h + j \<le> (d - 1) * h + (h - 1)" using assms by (simp add: add_mono mult_right_mono)
    then have "k * h + j + 1 \<le> d * h" by (simp add: algebra_simps)
    then have "(k * h + j + 1) * w \<le> d * h * w" using assms by (simp add: mult_right_mono)
    then show ?thesis using assms by (simp add: algebra_simps)
  qed
  ultimately show ?thesis by (simp add: voxelOffset_def)
qed

lemma set_boxOffsets:
  "set (boxOffsets ((iMin, iMax), (jMin, jMax), (kMin, kMax)) dims) =
     {voxelOffset dims (i, j, k) | i j k. iMin \<le> i \<and> i \<le> iMax \<and> jMin \<le> j \<and> j \<le> jMax \<and> kMin \<le> k \<and> k \<le> kMax}"
  apply (auto simp: boxOffsets_def)
   apply blast
  apply (metis atLeastAtMost_iff imageI)
  done

lemma every_triple:
  "every p ((a, b), (c, d), (e, f)) = (p (a, b) \<and> p (c, d) \<and> p (e, f))"
  by (simp add: every_def)

text \<open>
  Claim C5.  eraseInsideRectangle throws \<^verbatim>\<open>Oblique segmentation tools are not supported yet\<close>
  exactly when each of the three axes of the bounding box has \<open>min \<noteq> max\<close>; when it
  throws, the labelmap and the events are as before the call, and otherwise it returns
  normally.
\<close>

theorem eraseInsideRectangle_oblique_throws:
  "(case gbb (map w2i (points od)) (dimensions od) of
      ((iMin, iMax), (jMin, jMax), (kMin, kMax)) \<Rightarrow>
        if iMin \<noteq> iMax \<and> jMin \<noteq> jMax \<and> kMin \<noteq> kMax
        then eraseInsideRectangle w2i gbb od st =
               (Inl (Error ''Oblique segmentation tools are not supported yet''), st)
        else fst (eraseInsideRectangle w2i gbb od st) = Inr ())"
  by (simp add: eraseInsideRectangle_def eraseRectangle_def Let_def every_triple split: prod.splits)

theorem eraseInsideRectangle_oblique_throws_witness:
  "eraseInsideRectangle (\<lambda>p. p) (\<lambda>c d. ((0, 1), (0, 1), (0, 1))) exampleOperation exampleLabelmap
     = (Inl (Error ''Oblique segmentation tools are not supported yet''), exampleLabelmap)
   \<and> fst (eraseInsideRectangle (\<lambda>p. p) (\<lambda>c d. ((0, 1), (0, 0), (0, 0))) exampleOperation
          exampleLabelmap) = Inr ()"
  using eraseInsideRectangle_oblique_throws[where gbb = "\<lambda>c d. ((0, 1), (0, 1), (0, 1))"
      and ?w2i.0 = "\<lambda>p. p" and od = exampleOperation and st = exampleLabelmap]
    eraseInsideRectangle_oblique_throws[where gbb = "\<lambda>c d. ((0, 1), (0, 0), (0, 0))"
      and ?w2i.0 = "\<lambda>p. p" and od = exampleOperation and st = exampleLabelmap]
  by simp

text \<open>
  Claim C4.  For a rectangle whose bounding box is degenerate in at least one axis (the
  box lying within the rows and columns of the volume, as the bounding-box helper is
  given the dimensions for), eraseInsideRectangle returns normally; every voxel inside
  the box whose value is locked keeps its value, every other voxel inside the box
  becomes 0, every voxel outside the box is unchanged, and one
  segmentation-data-modified event is appended.
\<close>

theorem eraseInsideRectangle_non_oblique:
  assumes box: "gbb (map w2i (points od)) (dimensions od) = ((iMin, iMax), (jMin, jMax), (kMin, kMax))"
    and dims: "dimensions od = (w, h, d)"
    and degenerate: "iMin = iMax \<or> jMin = jMax \<or> kMin = kMax"
    and inside: "0 \<le> iMin" "iMax < w" "0 \<le> jMin" "jMax < h"
    and len: "int (length (scalarData st)) = w * h * d"
  shows "\<exists>st'. eraseInsideRectangle w2i gbb od st = (Inr (), st') \<and>
           events st' = events st @
             [SegmentationDataModified (toolGroupUID od) (segmentationDataUID od)] \<and>
           length (scalarData st') = length (scalarData st) \<and>
           (\<forall>i j k. 0 \<le> i \<and> i < w \<and> 0 \<le> j \<and> j < h \<and> 0 \<le> k \<and> k < d \<longrightarrow>
              scalarData st' ! nat (voxelOffset (w, h, d) (i, j, k)) =
                (if (iMin \<le> i \<and> i \<le> iMax \<and> jMin \<le> j \<and> j \<le> jMax \<and> kMin \<le> k \<and> k \<le> kMax)
                    \<and> scalarData st ! nat (voxelOffset (w, h, d) (i, j, k)) \<notin> set (segmentsLocked od)
                 then 0
                 else scalarData st ! nat (voxelOffset (w, h, d) (i, j, k))))"
proof -
  let ?b = "((iMin, iMax), (jMin, jMax), (kMin, kMax))"
  let ?sd = "visitAll (segmentsLocked od) (boxOffsets ?b (w, h, d)) (scalarData st)"
  let ?st' = "st\<lparr>scalarData := ?sd,
                 events := events st @
                   [SegmentationDataModified (toolGroupUID od) (segmentationDataUID od)]\<rparr>"
  have box': "gbb (map w2i (points od)) (w, h, d) = ?b"
    using box dims by simp
  have run: "eraseInsideRectangle w2i gbb od st = (Inr (), ?st')"
    using degenerate
    by (auto simp: eraseInsideRectangle_def eraseRectangle_def Let_def box' dims every_triple
        pointInShapeCallback_erase)
  have voxels: "?sd ! nat (voxelOffset (w, h, d) (i, j, k)) =
                (if (iMin \<le> i \<and> i \<le> iMax \<and> jMin \<le> j \<and> j \<le> jMax \<and> kMin \<le> k \<and> k \<le> kMax)
                    \<and> scalarData st ! nat (voxelOffset (w, h, d) (i, j, k)) \<notin> set (segmentsLocked od)
                 then 0
                 else scalarData st ! nat (voxelOffset (w, h, d) (i, j, k)))"
    if r: "0 \<le> i" "i < w" "0 \<le> j" "j < h" "0 \<le> k" "k < d" for i j k
  proof -
    let ?n = "nat (voxelOffset (w, h, d) (i, j, k))"
    have rng: "0 \<le> voxelOffset (w, h, d) (i, j, k)" "voxelOffset (w, h, d) (i, j, k) < w * h * d"
      using voxelOffset_range[OF r] by simp_all
    then have n: "?n < length (scalarData st)" using len by linarith
    have int_n: "int ?n = voxelOffset (w, h, d) (i, j, k)" using rng by simp
    have mem: "int ?n \<in> set (boxOffsets ?b (w, h, d)) \<longleftrightarrow>
                 (iMin \<le> i \<and> i \<le> iMax \<and> jMin \<le> j \<and> j \<le> jMax \<and> kMin \<le> k \<and> k \<le> kMax)"
    proof
      assume "int ?n \<in> set (boxOffsets ?b (w, h, d))"
      then obtain i' j' k' where eq: "voxelOffset (w, h, d) (i, j, k) = voxelOffset (w, h, d) (i', j', k')"
        and b': "iMin \<le> i'" "i' \<le> iMax" "jMin \<le> j'" "j' \<le> jMax" "kMin \<le> k'" "k' \<le> kMax"
        unfolding int_n set_boxOffsets by blast
      have "i = i' \<and> j = j' \<and> k = k'"
        by (rule voxelOffset_inj[OF r(1-4) _ _ _ _ eq]) (use b' inside in linarith)+
      with b' show "iMin \<le> i \<and> i \<le> iMax \<and> jMin \<le> j \<and> j \<le> jMax \<and> kMin \<le> k \<and> k \<le> kMax"
        by simp
    next
      assume "iMin \<le> i \<and> i \<le> iMax \<and> jMin \<le> j \<and> j \<le> jMax \<and> kMin \<le> k \<and> k \<le> kMax"
      then show "int ?n \<in> set (boxOffsets ?b (w, h, d))"
        unfolding int_n set_boxOffsets by blast
    qed
    show ?thesis
      unfolding visitAll_nth[OF n] mem by simp
  qed
  show ?thesis
    apply (rule exI[of _ ?st'])
    using run voxels by simp
qed

theorem eraseInsideRectangle_non_oblique_witness:
  "\<exists>st'. eraseInsideRectangle (\<lambda>p. p) (\<lambda>c d. ((0, 1), (0, 0), (0, 0))) exampleOperation exampleLabelmap
           = (Inr (), st') \<and>
         events st' = [SegmentationDataModified ''tg'' ''seg''] \<and>
         scalarData st' ! 0 = 0 \<and> scalarData st' ! 1 = 2 \<and> scalarData st' ! 2 = 3"
proof -
  from eraseInsideRectangle_non_oblique[of "\<lambda>c d. ((0, 1), (0, 0), (0, 0))" "\<lambda>p. p" exampleOperation
      0 1 0 0 0 0 2 2 1 exampleLabelmap]
  obtain st' where
    r: "eraseInsideRectangle (\<lambda>p. p) (\<lambda>c d. ((0, 1), (0, 0), (0, 0))) exampleOperation exampleLabelmap
           = (Inr (), st')"
    and e: "events st' = [SegmentationDataModified ''tg'' ''seg'']"
    and v: "\<And>i j k. 0 \<le> i \<and> i < 2 \<and> 0 \<le> j \<and> j < 2 \<and> 0 \<le> k \<and> k < 1 \<Longrightarrow>
              scalarData st' ! nat (voxelOffset (2, 2, 1) (i, j, k)) =
                (if (0 \<le> i \<and> i \<le> 1 \<and> 0 \<le> j \<and> j \<le> 0 \<and> 0 \<le> k \<and> k \<le> 0)
                    \<and> [1, 2, 3, 4] ! nat (voxelOffset (2, 2, 1) (i, j, k)) \<notin> set [2::int]
                 then 0
                 else [1, 2, 3, 4] ! nat (voxelOffset (2, 2, 1) (i, j, k)))"
    by (auto simp: exampleOperation_def exampleLabelmap_def)
  from v[of 0 0 0] have "scalarData st' ! 0 = 0" by (simp add: voxelOffset_def)
  moreover from v[of 1 0 0] have "scalarData st' ! 1 = 2" by (simp add: voxelOffset_def)
  moreover from v[of 0 1 0] have "scalarData st' ! 2 = 3" by (simp add: voxelOffset_def)
  ultimately show ?thesis using r e by blast
qed

section \<open>RectangleScissorsTool.preMouseDownCallback\<close>

text \<open>
  Claim C8, as amended.  When no drawing is under way and the element's viewport has no
  active segmentation, preMouseDownCallback throws
  \<^verbatim>\<open>No active segmentation detected, create one before using scissors tool\<close>; editData
  stays as it was and no draw handler is activated.
\<close>

theorem preMouseDownCallback_no_active_segmentation:
  assumes "\<not> isDrawing this"
    and "getEnabledElement env (element evt) = Some viewport"
    and "getActiveSegmentation env (viewportId viewport) = None"
  shows "\<exists>this'. preMouseDownCallback env evt this =
            (Inl (Error ''No active segmentation detected, create one before using scissors tool''), this')
          \<and> editData this' = editData this \<and> effects this' = effects this"
  using assms by (simp add: preMouseDownCallback_def Let_def)

theorem preMouseDownCallback_no_active_segmentation_witness:
  "\<exists>this'. preMouseDownCallback exampleScissorsEnv exampleScissorsEvent exampleScissorsTool =
            (Inl (Error ''No active segmentation detected, create one before using scissors tool''), this')
          \<and> editData this' = None \<and> effects this' = []"
  using preMouseDownCallback_no_active_segmentation[of exampleScissorsTool exampleScissorsEnv
      exampleScissorsEvent
      "\<lparr>viewportId = ''vp'', viewPlaneNormal = (0, 0, 1), viewUp = (0, 1, 0),
                frameOfReferenceUID = ''for'', isBaseVolumeViewport = False\<rparr>"]
  by (simp add: exampleScissorsEnv_def exampleScissorsEvent_def exampleScissorsTool_def)

text \<open>
  The claim as stated fails: the first call on a viewport without active segmentation
  throws and leaves \<open>isDrawing\<close> set; the next call, still without active segmentation,
  takes the early return and throws nothing.
\<close>

theorem preMouseDownCallback_drawing_does_not_throw:
  "getActiveSegmentation exampleScissorsEnv ''vp'' = None
   \<and> preMouseDownCallback exampleScissorsEnv exampleScissorsEvent exampleScissorsTool
       = (Inl (Error ''No active segmentation detected, create one before using scissors tool''),
          exampleScissorsTool\<lparr>isDrawing := True\<rparr>)
   \<and> preMouseDownCallback exampleScissorsEnv exampleScissorsEvent
         (exampleScissorsTool\<lparr>isDrawing := True\<rparr>)
       = (Inr None, exampleScissorsTool\<lparr>isDrawing := True\<rparr>)"
  by (simp add: preMouseDownCallback_def exampleScissorsEnv_def exampleScissorsEvent_def
      exampleScissorsTool_def Let_def)

section \<open>ZoomTool: dragParallelProjection\<close>






section \<open>CINE playback\<close>

subsection \<open>Stopping clips\<close>

lemma forgetInterval_idem [simp]: "forgetInterval (forgetInterval d) = forgetInterval d"
  by (simp add: forgetInterval_def)

lemma onlyStops_refl: "onlyStops w w"
  unfolding onlyStops_def by simp

lemma onlyStops_trans:
  assumes "onlyStops w1 w2" "onlyStops w2 w3"
  shows "onlyStops w1 w3"
proof -
  from assms obtain es1 es2 where
    e1: "cineEffects w2 = cineEffects w1 @ es1" "list_all isStopEffect es1"
    and e2: "cineEffects w3 = cineEffects w2 @ es2" "list_all isStopEffect es2"
    unfolding onlyStops_def by blast
  have eff: "\<exists>es. cineEffects w3 = cineEffects w1 @ es \<and> list_all isStopEffect es"
    using e1 e2 by (intro exI[of _ "es1 @ es2"]) simp
  have ts: "toolState w3 vid = toolState w1 vid
            \<or> toolState w3 vid = map_option forgetInterval (toolState w1 vid)" for vid
  proof -
    have a: "toolState w2 vid = toolState w1 vid
            \<or> toolState w2 vid = map_option forgetInterval (toolState w1 vid)"
      using assms(1) unfolding onlyStops_def by blast
    have b: "toolState w3 vid = toolState w2 vid
            \<or> toolState w3 vid = map_option forgetInterval (toolState w2 vid)"
      using assms(2) unfolding onlyStops_def by blast
    show ?thesis using a b by (cases "toolState w1 vid") auto
  qed
  show ?thesis
    using assms eff ts unfolding onlyStops_def by simp
qed

lemma onlyStops_stopClipWithData: "onlyStops w (stopClipWithData vid w)"
proof (cases "toolState w vid")
  case None
  then show ?thesis by (simp add: stopClipWithData_def onlyStops_refl)
next
  case (Some d)
  show ?thesis
  proof (cases "intervalId d")
    case None
    then show ?thesis using Some by (simp add: stopClipWithData_def onlyStops_refl)
  next
    case (Some i)
    let ?e = "if usingFrameTimeVector d then ClearTimeout i else ClearInterval i"
    have w': "stopClipWithData vid w =
        w\<lparr>toolState := (toolState w)(vid \<mapsto> d\<lparr>intervalId := None\<rparr>),
          cineEffects := cineEffects w @ [?e]\<rparr>"
      using \<open>toolState w vid = Some d\<close> Some
      by (simp add: stopClipWithData_def updateToolState_def emit_def)
    have "isStopEffect ?e" by simp
    then show ?thesis
      unfolding w' onlyStops_def using \<open>toolState w vid = Some d\<close>
      by (simp add: forgetInterval_def)
  qed
qed

lemma onlyStops_emit: "isStopEffect e \<Longrightarrow> onlyStops w (emit e w)"
  unfolding onlyStops_def emit_def by simp

lemma onlyStops_mapDelete:
  "onlyStops w (w\<lparr>dynamicVolumesPlayingMap := m\<rparr>)"
  unfolding onlyStops_def by simp

lemma onlyStops_toolState:
  assumes "onlyStops w w'" "toolState w vid = Some d"
  shows "\<exists>i. toolState w' vid = Some (d\<lparr>intervalId := i\<rparr>)"
proof -
  have "toolState w' vid = Some d \<or> toolState w' vid = Some (d\<lparr>intervalId := None\<rparr>)"
    using assms unfolding onlyStops_def forgetInterval_def by (metis option.simps(9))
  then show ?thesis
  proof
    assume "toolState w' vid = Some d"
    then have "toolState w' vid = Some (d\<lparr>intervalId := intervalId d\<rparr>)" by simp
    then show ?thesis ..
  next
    assume "toolState w' vid = Some (d\<lparr>intervalId := None\<rparr>)"
    then show ?thesis ..
  qed
qed

lemma onlyStops_toolState_None:
  assumes "onlyStops w w'" "toolState w vid = None"
  shows "toolState w' vid = None"
  using assms unfolding onlyStops_def by (metis option.simps(8))

lemma onlyStops_stopped:
  assumes "onlyStops w w'" "toolState w vid = Some d" "intervalId d = None"
  shows "toolState w' vid = Some d"
proof -
  have "toolState w' vid = Some d \<or> toolState w' vid = Some (d\<lparr>intervalId := None\<rparr>)"
    using assms unfolding onlyStops_def forgetInterval_def by (metis option.simps(9))
  moreover have "d\<lparr>intervalId := None\<rparr> = d" using assms(3) by simp
  ultimately show ?thesis by simp
qed

lemma stops_onlyStops:
  "onlyStops w (snd (stopClip' el sdc v0 w))"
  "onlyStops w (snd (stopDynamicVolumeCine el w))"
proof (induction el sdc v0 w and el w rule: stopClip'_stopDynamicVolumeCine.induct)
  case (1 el stopDynamicCine viewportId0 w)
  show ?case
  proof (cases "enabledElements w el")
    case None
    then show ?thesis
      by (subst stopClip'.simps)
         (auto simp: onlyStops_refl onlyStops_stopClipWithData split: option.splits)
  next
    case (Some vid)
    show ?thesis
    proof (cases "viewportClass (viewports w vid) = VideoViewport")
      case True
      have "onlyStops w (emit (VideoPause vid) (stopClipWithData vid w))"
        by (rule onlyStops_trans[OF onlyStops_stopClipWithData onlyStops_emit]) simp
      then show ?thesis using Some True by (subst stopClip'.simps) simp
    next
      case False
      show ?thesis
      proof (cases "stopDynamicCine \<and> instanceofBaseVolumeViewport (viewportClass (viewports w vid))")
        case True
        have "onlyStops (stopClipWithData vid w) (snd (stopDynamicVolumeCine el (stopClipWithData vid w)))"
          using "1.IH"[OF Some False True] .
        then have "onlyStops w (snd (stopDynamicVolumeCine el (stopClipWithData vid w)))"
          by (rule onlyStops_trans[OF onlyStops_stopClipWithData])
        then show ?thesis using Some False True by (subst stopClip'.simps) simp
      next
        case F2: False
        then show ?thesis using Some False
          by (subst stopClip'.simps) (auto simp: onlyStops_stopClipWithData)
      qed
    qed
  qed
next
  case (2 el w)
  show ?case
  proof (cases "enabledElements w el")
    case None
    then show ?thesis by (subst stopDynamicVolumeCine.simps) (simp add: onlyStops_refl)
  next
    case (Some vid)
    show ?thesis
    proof (cases "viewportClass (viewports w vid) = VolumeViewport")
      case False
      then show ?thesis using Some by (subst stopDynamicVolumeCine.simps) (simp add: onlyStops_refl)
    next
      case True
      show ?thesis
      proof (cases "getVolumeFromViewport w (viewports w vid)")
        case None
        then show ?thesis using Some True
          by (subst stopDynamicVolumeCine.simps) (simp add: onlyStops_refl)
      next
        case (Some volume)
        note vol = Some
        show ?thesis
        proof (cases "isDynamicVolume (snd volume)")
          case False
          then show ?thesis using \<open>enabledElements w el = Some vid\<close> True vol
            by (subst stopDynamicVolumeCine.simps) (simp add: onlyStops_refl)
        next
          case dyn: True
          let ?w1 = "w\<lparr>dynamicVolumesPlayingMap := mapDelete (fst volume) (dynamicVolumesPlayingMap w)\<rparr>"
          show ?thesis
          proof (cases "mapGet (dynamicVolumesPlayingMap w) (fst volume)")
            case None
            then show ?thesis using \<open>enabledElements w el = Some vid\<close> True vol dyn
              by (subst stopDynamicVolumeCine.simps) (simp add: onlyStops_mapDelete)
          next
            case (Some e)
            show ?thesis
            proof (cases "e \<noteq> el")
              case True
              have "onlyStops ?w1 (snd (stopClip' e True None ?w1))"
                using "2.IH"[OF \<open>enabledElements w el = Some vid\<close> \<open>viewportClass (viewports w vid) = VolumeViewport\<close> vol dyn Some True] .
              then have "onlyStops w (snd (stopClip' e True None ?w1))"
                by (rule onlyStops_trans[OF onlyStops_mapDelete])
              then show ?thesis
                using \<open>enabledElements w el = Some vid\<close> \<open>viewportClass (viewports w vid) = VolumeViewport\<close> vol dyn Some True
                by (subst stopDynamicVolumeCine.simps) simp
            next
              case False
              then show ?thesis
                using \<open>enabledElements w el = Some vid\<close> \<open>viewportClass (viewports w vid) = VolumeViewport\<close> vol dyn Some
                by (subst stopDynamicVolumeCine.simps) (simp add: onlyStops_mapDelete)
            qed
          qed
        qed
      qed
    qed
  qed
qed

lemma stopClipWithData_enabled [simp]:
  "enabledElements (stopClipWithData vid w) = enabledElements w"
  using onlyStops_stopClipWithData[of w vid] by (simp add: onlyStops_def)

lemma stops_return:
  "fst (stopClip' el sdc v0 w) = Inr ()"
  "enabledElements w el \<noteq> None \<Longrightarrow> fst (stopDynamicVolumeCine el w) = Inr ()"
proof (induction el sdc v0 w and el w rule: stopClip'_stopDynamicVolumeCine.induct)
  case (1 el stopDynamicCine viewportId0 w)
  show ?case
  proof (cases "enabledElements w el")
    case None
    then show ?thesis by (subst stopClip'.simps) (simp split: option.splits)
  next
    case (Some vid)
    show ?thesis
    proof (cases "viewportClass (viewports w vid) \<noteq> VideoViewport \<and> stopDynamicCine
                  \<and> instanceofBaseVolumeViewport (viewportClass (viewports w vid))")
      case True
      then have "fst (stopDynamicVolumeCine el (stopClipWithData vid w)) = Inr ()"
        using "1.IH"[OF Some] Some by simp
      then show ?thesis using Some True by (subst stopClip'.simps) simp
    next
      case False
      then show ?thesis using Some by (subst stopClip'.simps) auto
    qed
  qed
next
  case (2 el w)
  then obtain vid where en: "enabledElements w el = Some vid" by auto
  show ?case
    using en "2.IH"[OF en]
    by (subst stopDynamicVolumeCine.simps) (auto split: option.splits)
qed

lemma stopClipWithData_toolState:
  assumes "toolState w vid = Some d"
  shows "toolState (stopClipWithData vid w) vid = Some (d\<lparr>intervalId := None\<rparr>)"
proof (cases "intervalId d")
  case None
  then have "d\<lparr>intervalId := None\<rparr> = d" by simp
  then show ?thesis using assms None by (simp add: stopClipWithData_def)
next
  case (Some i)
  then show ?thesis using assms
    by (simp add: stopClipWithData_def updateToolState_def emit_def)
qed

lemma stopClipWithData_effects:
  assumes "toolState w vid = Some d" "intervalId d = Some i"
  shows "cineEffects (stopClipWithData vid w) =
           cineEffects w @ [if usingFrameTimeVector d then ClearTimeout i else ClearInterval i]"
  using assms by (simp add: stopClipWithData_def updateToolState_def emit_def)

lemma stopClip'_after_data:
  assumes "enabledElements w el = Some vid \<or> (enabledElements w el = None \<and> vid \<noteq> [])"
  shows "onlyStops (stopClipWithData vid w) (snd (stopClip' el sdc (Some vid) w))"
proof (cases "enabledElements w el")
  case None
  then show ?thesis using assms by (subst stopClip'.simps) (simp add: onlyStops_refl)
next
  case (Some vid')
  then have v: "vid' = vid" using assms by simp
  show ?thesis
  proof (cases "viewportClass (viewports w vid) = VideoViewport")
    case True
    then show ?thesis using Some v
      by (subst stopClip'.simps) (simp add: onlyStops_emit)
  next
    case False
    show ?thesis
    proof (cases "sdc \<and> instanceofBaseVolumeViewport (viewportClass (viewports w vid))")
      case True
      then show ?thesis using Some v False
        by (subst stopClip'.simps) (simp add: stops_onlyStops)
    next
      case F2: False
      then show ?thesis using Some v False
        by (subst stopClip'.simps) (auto simp: onlyStops_refl)
    qed
  qed
qed

lemma stopClip'_stops:
  assumes en: "enabledElements w el = Some vid \<or> (enabledElements w el = None \<and> vid \<noteq> [])"
    and d: "toolState w vid = Some d"
  shows "toolState (snd (stopClip' el sdc (Some vid) w)) vid = Some (d\<lparr>intervalId := None\<rparr>)"
    and "intervalId d = Some i \<Longrightarrow>
           \<exists>es. cineEffects (snd (stopClip' el sdc (Some vid) w)) =
             cineEffects w @ (if usingFrameTimeVector d then ClearTimeout i else ClearInterval i) # es"
proof -
  let ?w1 = "stopClipWithData vid w"
  let ?w2 = "snd (stopClip' el sdc (Some vid) w)"
  have os: "onlyStops ?w1 ?w2" by (rule stopClip'_after_data[OF en])
  have t1: "toolState ?w1 vid = Some (d\<lparr>intervalId := None\<rparr>)"
    by (rule stopClipWithData_toolState[OF d])
  show "toolState ?w2 vid = Some (d\<lparr>intervalId := None\<rparr>)"
    by (rule onlyStops_stopped[OF os t1]) simp
  assume i: "intervalId d = Some i"
  obtain es where "cineEffects ?w2 = cineEffects ?w1 @ es"
    using os unfolding onlyStops_def by blast
  then have "cineEffects ?w2 =
      cineEffects w @ (if usingFrameTimeVector d then ClearTimeout i else ClearInterval i) # es"
    unfolding stopClipWithData_effects[OF d i] by simp
  then show "\<exists>es. cineEffects ?w2 =
             cineEffects w @ (if usingFrameTimeVector d then ClearTimeout i else ClearInterval i) # es"
    ..
qed

subsection \<open>The tick\<close>




subsection \<open>Starting a clip\<close>

text \<open>
  Claim C7.  playClip throws \<^verbatim>\<open>playClip: element must not be undefined\<close> when the
  element is undefined and \<^verbatim>\<open>playClip: element must be a valid Cornerstone enabled element\<close>
  when the element is not enabled; in both cases the state is the one before the call, so
  no tool state has been added and no timer started.
\<close>

theorem playClip_rejects_element:
  "playClip jsDiv None playClipOptions w = (Inl (Error ''playClip: element must not be undefined''), w)
   \<and> (enabledElements w el = None \<longrightarrow>
        playClip jsDiv (Some el) playClipOptions w =
          (Inl (Error ''playClip: element must be a valid Cornerstone enabled element''), w))"
  by (simp add: playClip_def)

theorem playClip_rejects_element_witness:
  "playClip exactDivide None None exampleWorld = (Inl (Error ''playClip: element must not be undefined''), exampleWorld)
   \<and> enabledElements exampleWorld 5 = None
   \<and> playClip exactDivide (Some 5) None exampleWorld =
          (Inl (Error ''playClip: element must be a valid Cornerstone enabled element''), exampleWorld)"
  using playClip_rejects_element[of exactDivide None exampleWorld 5]
  by (simp add: exampleWorld_def)

lemma updateToolState_simps [simp]:
  "toolState (updateToolState vid f w) = (toolState w)(vid := map_option f (toolState w vid))"
  "enabledElements (updateToolState vid f w) = enabledElements w"
  "viewports (updateToolState vid f w) = viewports w"
  "volumeObjects (updateToolState vid f w) = volumeObjects w"
  "cachedVolume (updateToolState vid f w) = cachedVolume w"
  "dynamicVolumesPlayingMap (updateToolState vid f w) = dynamicVolumesPlayingMap w"
  "waitForRenderedCount (updateToolState vid f w) = waitForRenderedCount w"
  "nextTimerId (updateToolState vid f w) = nextTimerId w"
  "cineEffects (updateToolState vid f w) = cineEffects w"
  by (auto simp: updateToolState_def fun_eq_iff split: option.splits)

lemma emit_simps [simp]:
  "toolState (emit e w) = toolState w"
  "enabledElements (emit e w) = enabledElements w"
  "viewports (emit e w) = viewports w"
  "volumeObjects (emit e w) = volumeObjects w"
  "cachedVolume (emit e w) = cachedVolume w"
  "dynamicVolumesPlayingMap (emit e w) = dynamicVolumesPlayingMap w"
  "waitForRenderedCount (emit e w) = waitForRenderedCount w"
  "nextTimerId (emit e w) = nextTimerId w"
  "cineEffects (emit e w) = cineEffects w @ [e]"
  by (simp_all add: emit_def)

lemma context_reads:
  assumes "viewports w' = viewports w" "volumeObjects w' = volumeObjects w"
  shows "numScrollSteps ctx w' = numScrollSteps ctx w"
    and "frameTimeVectorEnabled ctx w' = frameTimeVectorEnabled ctx w"
    and "currentStepIndex ctx w' = currentStepIndex ctx w"
  using assms by (cases ctx; simp)+

lemma createCinePlayContext_frame:
  assumes "createCinePlayContext vid opts w = (r, w1)"
  shows "enabledElements w1 = enabledElements w" "viewports w1 = viewports w"
    "volumeObjects w1 = volumeObjects w" "cachedVolume w1 = cachedVolume w"
    "toolState w1 = toolState w" "dynamicVolumesPlayingMap w1 = dynamicVolumesPlayingMap w"
    "nextTimerId w1 = nextTimerId w" "cineEffects w1 = cineEffects w"
  using assms
  by (auto simp: createCinePlayContext_def Let_def split: if_splits option.splits)

lemma timeVarying_nonempty:
  "snd (getPlayClipTimeouts jsDiv v s) \<Longrightarrow> fst (getPlayClipTimeouts jsDiv v s) \<noteq> []"
  unfolding getPlayClipTimeouts_eq Let_def by (auto split: if_splits)

lemma context_reads_update [simp]:
  "numScrollSteps ctx (updateToolState vid f w) = numScrollSteps ctx w"
  "frameTimeVectorEnabled ctx (updateToolState vid f w) = frameTimeVectorEnabled ctx w"
  by (rule context_reads; simp)+

lemma timeVarying_nonempty_pair:
  "getPlayClipTimeouts jsDiv v s = (ts, True) \<Longrightarrow> ts \<noteq> []"
  using timeVarying_nonempty[of jsDiv v s] by simp

lemma startClip_schedules:
  assumes d3: "toolState w3 vid = Some d3" and np: "\<not> hasPlay ctx"
  shows "\<exists>w' d' timer.
     startClip jsDiv ctx el vid opts dyn w3 = (Inr (), w') \<and>
     toolState w' vid = Some d' \<and>
     intervalId d' = Some (nextTimerId w3) \<and>
     cineEffects w' = cineEffects w3 @ [timer, TriggerEvent el CLIP_STARTED] \<and>
     frameTimeVector d' = frameTimeVector d3 \<and>
     speed d' = speed d3 \<and>
     ignoreFrameTimeVector d' =
       ((case optFramesPerSecond opts of None \<Rightarrow> False | Some f \<Rightarrow> f \<noteq> 0)
        \<or> ignoreFrameTimeVector d3) \<and>
     framesPerSecond d' =
       (case optFramesPerSecond opts of
          None \<Rightarrow> framesPerSecond d3
        | Some f \<Rightarrow> if f \<noteq> 0 then f else framesPerSecond d3) \<and>
     (let schedule =
            (case frameTimeVector d' of
               None \<Rightarrow> None
             | Some v \<Rightarrow>
                 if \<not> ignoreFrameTimeVector d'
                    \<and> int (length v) = numScrollSteps ctx w3
                    \<and> frameTimeVectorEnabled ctx w3
                    \<and> snd (getPlayClipTimeouts jsDiv v (Some (speed d')))
                 then Some (fst (getPlayClipTimeouts jsDiv v (Some (speed d'))))
                 else None)
      in usingFrameTimeVector d' = (schedule \<noteq> None) \<and>
         timer = (case schedule of
                    Some playClipTimeouts \<Rightarrow>
                      SetTimeout (nextTimerId w3) (PlayClipTimeoutHandler ctx el vid dyn playClipTimeouts) (Some 0)
                  | None \<Rightarrow>
                      SetInterval (nextTimerId w3) (PlayClipAction ctx el vid dyn) (jsDiv 1000 \<bar>framesPerSecond d'\<bar>)))"
proof -
  define d4 where "d4 = d3\<lparr>dynamicCineEnabled := Some dyn\<rparr>"
  define d5 where "d5 = (case optFramesPerSecond opts of
                  None \<Rightarrow> d4
                | Some f \<Rightarrow>
                    if f < 0 \<or> f > 0
                    then d4\<lparr>framesPerSecond := f, reverse := (f < 0), ignoreFrameTimeVector := True\<rparr>
                    else d4)"
  define w5 where "w5 = w3\<lparr>toolState := (toolState w3)(vid \<mapsto> d5)\<rparr>"
  have w5: "(case optFramesPerSecond opts of
                  None \<Rightarrow> updateToolState vid (\<lambda>d. d\<lparr>dynamicCineEnabled := Some dyn\<rparr>) w3
                | Some f \<Rightarrow>
                    if f < 0 \<or> f > 0
                    then updateToolState vid
                           (\<lambda>d. d\<lparr>framesPerSecond := f, reverse := (f < 0),
                                 ignoreFrameTimeVector := True\<rparr>)
                          (updateToolState vid (\<lambda>d. d\<lparr>dynamicCineEnabled := Some dyn\<rparr>) w3)
                    else updateToolState vid (\<lambda>d. d\<lparr>dynamicCineEnabled := Some dyn\<rparr>) w3) = w5"
    using d3 unfolding w5_def d5_def d4_def
    by (auto simp: updateToolState_def split: option.splits)
  have t5: "toolState w5 vid = Some d5" by (simp add: w5_def)
  have r5: "numScrollSteps ctx w5 = numScrollSteps ctx w3"
    "frameTimeVectorEnabled ctx w5 = frameTimeVectorEnabled ctx w3"
    by (rule context_reads; simp add: w5_def)+
  have f5: "frameTimeVector d5 = frameTimeVector d3" "speed d5 = speed d3"
    "ignoreFrameTimeVector d5 =
       ((case optFramesPerSecond opts of None \<Rightarrow> False | Some f \<Rightarrow> f \<noteq> 0)
        \<or> ignoreFrameTimeVector d3)"
    "framesPerSecond d5 =
       (case optFramesPerSecond opts of
          None \<Rightarrow> framesPerSecond d3
        | Some f \<Rightarrow> if f \<noteq> 0 then f else framesPerSecond d3)"
    unfolding d5_def d4_def by (auto split: option.splits)
  define d6 where "d6 = (case optBounce opts of None \<Rightarrow> d5 | Some b \<Rightarrow> d5\<lparr>bounce := b\<rparr>)"
  define w6 where "w6 = (case optBounce opts of
                  None \<Rightarrow> w5
                | Some b \<Rightarrow> updateToolState vid (\<lambda>d. d\<lparr>bounce := b\<rparr>) w5)"
  define w7 where "w7 = (if dyn then
                  (case getVolumeFromViewport w6 (viewports w6 vid) of
                     None \<Rightarrow> w6
                   | Some volume \<Rightarrow>
                       w6\<lparr>dynamicVolumesPlayingMap :=
                            mapSet (fst volume) el (dynamicVolumesPlayingMap w6)\<rparr>)
                else w6)"
  have t6: "toolState w6 vid = Some d6" "cineEffects w6 = cineEffects w3" "nextTimerId w6 = nextTimerId w3"
    unfolding w6_def d6_def using t5 by (auto simp: w5_def split: option.splits)
  have t7: "toolState w7 vid = Some d6" "cineEffects w7 = cineEffects w3" "nextTimerId w7 = nextTimerId w3"
    unfolding w7_def using t6 by (auto split: option.splits)
  have f6: "frameTimeVector d6 = frameTimeVector d5" "speed d6 = speed d5"
    "ignoreFrameTimeVector d6 = ignoreFrameTimeVector d5" "framesPerSecond d6 = framesPerSecond d5"
    unfolding d6_def by (auto split: option.splits)
  define schedule where "schedule =
            (case frameTimeVector d5 of
               None \<Rightarrow> None
             | Some v \<Rightarrow>
                 if \<not> ignoreFrameTimeVector d5
                    \<and> int (length v) = numScrollSteps ctx w3
                    \<and> frameTimeVectorEnabled ctx w3
                    \<and> snd (getPlayClipTimeouts jsDiv v (Some (speed d5)))
                 then Some (fst (getPlayClipTimeouts jsDiv v (Some (speed d5))))
                 else None)"
  have sched: "(case (case frameTimeVector d5 of
               None \<Rightarrow> None
             | Some vector \<Rightarrow>
                 if ignoreFrameTimeVector d5 \<noteq> True
                    \<and> int (length vector) = numScrollSteps ctx w5
                    \<and> frameTimeVectorEnabled ctx w5
                 then Some (getPlayClipTimeouts jsDiv vector (Some (speed d5)))
                 else None) of
                           None \<Rightarrow> None
                         | Some (playClipTimeouts, playClipIsTimeVarying) \<Rightarrow>
                             if length playClipTimeouts > 0 \<and> playClipIsTimeVarying
                             then Some playClipTimeouts else None) = schedule"
    unfolding schedule_def r5
    by (auto split: option.splits prod.splits dest: timeVarying_nonempty_pair)
  define timer where "timer = (case schedule of
                    Some playClipTimeouts \<Rightarrow>
                      SetTimeout (nextTimerId w3) (PlayClipTimeoutHandler ctx el vid dyn playClipTimeouts) (Some 0)
                  | None \<Rightarrow>
                      SetInterval (nextTimerId w3) (PlayClipAction ctx el vid dyn) (jsDiv 1000 \<bar>framesPerSecond d5\<bar>))"
  define d8 where "d8 = d6\<lparr>usingFrameTimeVector := (schedule \<noteq> None), intervalId := Some (nextTimerId w3)\<rparr>"
  define w8 where "w8 = (case schedule of
                     Some playClipTimeouts \<Rightarrow>
                       (case setTimeout (PlayClipTimeoutHandler ctx el vid dyn playClipTimeouts) (Some 0)
                               (updateToolState vid (\<lambda>d. d\<lparr>usingFrameTimeVector := True\<rparr>) w7) of
                          (id', w') \<Rightarrow> updateToolState vid (\<lambda>d. d\<lparr>intervalId := Some id'\<rparr>) w')
                   | None \<Rightarrow>
                       (case setInterval (PlayClipAction ctx el vid dyn)
                               (jsDiv 1000 \<bar>framesPerSecond d5\<bar>)
                               (updateToolState vid (\<lambda>d. d\<lparr>usingFrameTimeVector := False\<rparr>) w7) of
                          (id', w') \<Rightarrow> updateToolState vid (\<lambda>d. d\<lparr>intervalId := Some id'\<rparr>) w'))"
  have t8: "toolState w8 vid = Some d8" "cineEffects w8 = cineEffects w3 @ [timer]"
    unfolding w8_def d8_def timer_def using t7
    by (auto simp: setTimeout_def setInterval_def split: option.splits)
  have run: "startClip jsDiv ctx el vid opts dyn w3 = (Inr (), triggerEvent el CLIP_STARTED w8)"
    unfolding w8_def w7_def w6_def startClip_def Let_def w5 t5 option.case sched
    using np by simp
  let ?w' = "triggerEvent el CLIP_STARTED w8"
  have c2: "toolState ?w' vid = Some d8"
    and c4: "cineEffects ?w' = cineEffects w3 @ [timer, TriggerEvent el CLIP_STARTED]"
    using t8 by (simp_all add: triggerEvent_def)
  have fields8: "frameTimeVector d8 = frameTimeVector d5" "speed d8 = speed d5"
    "ignoreFrameTimeVector d8 = ignoreFrameTimeVector d5" "framesPerSecond d8 = framesPerSecond d5"
    unfolding d8_def using f6 by simp_all
  have c3: "intervalId d8 = Some (nextTimerId w3)"
    and c9: "usingFrameTimeVector d8 = (schedule \<noteq> None)"
    unfolding d8_def by simp_all
  have c5: "frameTimeVector d8 = frameTimeVector d3" and c6: "speed d8 = speed d3"
    and c7: "ignoreFrameTimeVector d8 =
       ((case optFramesPerSecond opts of None \<Rightarrow> False | Some f \<Rightarrow> f \<noteq> 0)
        \<or> ignoreFrameTimeVector d3)"
    and c8: "framesPerSecond d8 =
       (case optFramesPerSecond opts of
          None \<Rightarrow> framesPerSecond d3
        | Some f \<Rightarrow> if f \<noteq> 0 then f else framesPerSecond d3)"
    unfolding fields8 by (fact f5)+
  have sch8: "(case frameTimeVector d8 of
               None \<Rightarrow> None
             | Some v \<Rightarrow>
                 if \<not> ignoreFrameTimeVector d8
                    \<and> int (length v) = numScrollSteps ctx w3
                    \<and> frameTimeVectorEnabled ctx w3
                    \<and> snd (getPlayClipTimeouts jsDiv v (Some (speed d8)))
                 then Some (fst (getPlayClipTimeouts jsDiv v (Some (speed d8))))
                 else None) = schedule"
    unfolding fields8 schedule_def ..
  have c10: "timer = (case schedule of
                    Some playClipTimeouts \<Rightarrow>
                      SetTimeout (nextTimerId w3) (PlayClipTimeoutHandler ctx el vid dyn playClipTimeouts) (Some 0)
                  | None \<Rightarrow>
                      SetInterval (nextTimerId w3) (PlayClipAction ctx el vid dyn) (jsDiv 1000 \<bar>framesPerSecond d8\<bar>))"
    unfolding fields8 timer_def ..
  show ?thesis
    unfolding Let_def
    apply (rule exI[of _ ?w'], rule exI[of _ d8], rule exI[of _ timer])
    unfolding sch8
    by (intro conjI) (fact run c2 c3 c4 c5 c6 c7 c8 c9 c10)+
qed

lemma playClip_prepares:
  assumes en: "enabledElements w el = Some vid"
    and ctx: "createCinePlayContext vid (withDefaults playClipOptions0) w = (Inr ctx, wc)"
  shows "\<exists>w3 d3 es.
     playClip jsDiv (Some el) playClipOptions0 w =
       startClip jsDiv ctx el vid (withDefaults playClipOptions0)
         (optDynamicCineEnabled (withDefaults playClipOptions0) = Some True) w3 \<and>
     toolState w3 vid = Some d3 \<and>
     d3 = (case toolState w vid of
             None \<Rightarrow>
               \<lparr>intervalId = None, framesPerSecond = 30, lastFrameTimeStamp = None,
                ignoreFrameTimeVector = False, usingFrameTimeVector = False,
                frameTimeVector = optFrameTimeVector (withDefaults playClipOptions0),
                speed = (case optFrameTimeVectorSpeedMultiplier (withDefaults playClipOptions0) of
                           None \<Rightarrow> 1 | Some s \<Rightarrow> s),
                reverse = (case optReverse (withDefaults playClipOptions0) of None \<Rightarrow> False | Some b \<Rightarrow> b),
                loop = (case optLoop (withDefaults playClipOptions0) of None \<Rightarrow> True | Some b \<Rightarrow> b),
                bounce = (case optBounce (withDefaults playClipOptions0) of None \<Rightarrow> False | Some b \<Rightarrow> b),
                dynamicCineEnabled = None\<rparr>
           | Some d \<Rightarrow> d\<lparr>intervalId := None\<rparr>) \<and>
     cineEffects w3 = cineEffects w @ es \<and> list_all isStopEffect es \<and>
     viewports w3 = viewports w \<and> volumeObjects w3 = volumeObjects w \<and>
     nextTimerId w3 = nextTimerId w"
proof -
  let ?opts = "withDefaults playClipOptions0"
  let ?dyn = "optDynamicCineEnabled ?opts = Some True"
  note fr = createCinePlayContext_frame[OF ctx]
  have enc: "enabledElements wc el = Some vid" using en fr by simp
  obtain w2 where s2: "(if ?dyn then stopDynamicVolumeCine el wc else (Inr (), wc)) = (Inr (), w2)"
    and os2: "onlyStops wc w2"
  proof (cases ?dyn)
    case True
    have "fst (stopDynamicVolumeCine el wc) = Inr ()" using stops_return(2)[of wc el] enc by simp
    then have "stopDynamicVolumeCine el wc = (Inr (), snd (stopDynamicVolumeCine el wc))"
      by (metis prod.collapse)
    then show ?thesis using that[of "snd (stopDynamicVolumeCine el wc)"] True stops_onlyStops(2)[of wc el]
      by simp
  next
    case False
    then show ?thesis using that[of wc] onlyStops_refl by simp
  qed
  have en2: "enabledElements w2 el = Some vid" using os2 enc by (simp add: onlyStops_def)
  obtain es2 where es2: "cineEffects w2 = cineEffects w @ es2" "list_all isStopEffect es2"
    using os2 fr unfolding onlyStops_def by auto
  have fr2: "viewports w2 = viewports w" "volumeObjects w2 = volumeObjects w"
    "nextTimerId w2 = nextTimerId w"
    using os2 fr by (simp_all add: onlyStops_def)
  show ?thesis
  proof (cases "toolState w vid")
    case None
    let ?d0 = "\<lparr>intervalId = None, framesPerSecond = 30, lastFrameTimeStamp = None,
                ignoreFrameTimeVector = False, usingFrameTimeVector = False,
                frameTimeVector = optFrameTimeVector ?opts,
                speed = (case optFrameTimeVectorSpeedMultiplier ?opts of None \<Rightarrow> 1 | Some s \<Rightarrow> s),
                reverse = (case optReverse ?opts of None \<Rightarrow> False | Some b \<Rightarrow> b),
                loop = (case optLoop ?opts of None \<Rightarrow> True | Some b \<Rightarrow> b),
                bounce = (case optBounce ?opts of None \<Rightarrow> False | Some b \<Rightarrow> b),
                dynamicCineEnabled = None\<rparr>"
    let ?w3 = "addToolState vid ?d0 w2"
    have nc: "toolState wc vid = None" using None fr by simp
    have run: "playClip jsDiv (Some el) playClipOptions0 w = startClip jsDiv ctx el vid ?opts ?dyn ?w3"
      unfolding playClip_def Let_def using en by (simp add: ctx s2 nc)
    have "toolState ?w3 vid = Some ?d0" "cineEffects ?w3 = cineEffects w @ es2"
      "viewports ?w3 = viewports w" "volumeObjects ?w3 = volumeObjects w"
      "nextTimerId ?w3 = nextTimerId w"
      using es2 fr2 by (simp_all add: addToolState_def)
    then show ?thesis using run es2(2) None by (intro exI[of _ ?w3] exI[of _ ?d0] exI[of _ es2]) simp
  next
    case (Some d)
    have sc: "toolState wc vid = Some d" using Some fr by simp
    obtain i where d2: "toolState w2 vid = Some (d\<lparr>intervalId := i\<rparr>)"
      using onlyStops_toolState[OF os2 sc] by blast
    obtain w3 where s3: "stopClip' el (\<not> ?dyn) (Some vid) w2 = (Inr (), w3)"
      using stops_return(1)[of el "\<not> ?dyn" "Some vid" w2] by (metis prod.collapse)
    have w3: "snd (stopClip' el (\<not> ?dyn) (Some vid) w2) = w3" by (simp add: s3)
    have os3: "onlyStops w2 w3"
      using stops_onlyStops(1)[of w2 el "\<not> ?dyn" "Some vid"] unfolding w3 .
    have t3: "toolState w3 vid = Some (d\<lparr>intervalId := None\<rparr>)"
      using stopClip'_stops(1)[OF disjI1[OF en2] d2, of "\<not> ?dyn"] unfolding w3 by simp
    obtain es3 where es3: "cineEffects w3 = cineEffects w2 @ es3" "list_all isStopEffect es3"
      using os3 unfolding onlyStops_def by auto
    have run: "playClip jsDiv (Some el) playClipOptions0 w = startClip jsDiv ctx el vid ?opts ?dyn w3"
      unfolding playClip_def Let_def using en by (simp add: ctx s2 sc s3)
    have "cineEffects w3 = cineEffects w @ (es2 @ es3)" "list_all isStopEffect (es2 @ es3)"
      "viewports w3 = viewports w" "volumeObjects w3 = volumeObjects w"
      "nextTimerId w3 = nextTimerId w"
      using es2 es3 fr2 os3 by (simp_all add: onlyStops_def)
    then show ?thesis using run t3 Some
      by (intro exI[of _ w3] exI[of _ "d\<lparr>intervalId := None\<rparr>"] exI[of _ "es2 @ es3"]) simp
  qed
qed

subsection \<open>What the timers run\<close>

lemma scroll_appends:
  "\<exists>es. cineEffects (snd (scroll ctx scrollError delta w)) = cineEffects w @ es"
  by (cases ctx) (auto simp: waitOrScroll_def Let_def split: option.splits)

lemma stopClipWithData_appends:
  "\<exists>es. cineEffects (stopClipWithData vid w) = cineEffects w @ es"
  using onlyStops_stopClipWithData[of w vid] unfolding onlyStops_def by blast

lemma scrollToStep_appends:
  "\<exists>es. cineEffects (scrollToStep ctx el vid scrollError cur new w) = cineEffects w @ es"
proof (cases "new - cur \<noteq> 0")
  case False
  then show ?thesis by (simp add: scrollToStep_def)
next
  case True
  obtain r w1 where sc: "scroll ctx scrollError (new - cur) w = (r, w1)" by (cases "scroll ctx scrollError (new - cur) w")
  obtain es1 where es1: "cineEffects w1 = cineEffects w @ es1"
    using scroll_appends[of ctx scrollError "new - cur" w] unfolding sc by auto
  show ?thesis
  proof (cases r)
    case (Inr u)
    then have "scrollToStep ctx el vid scrollError cur new w = w1"
      using True sc by (simp add: scrollToStep_def)
    then show ?thesis using es1 by simp
  next
    case (Inl e)
    then have r: "scrollToStep ctx el vid scrollError cur new w
        = triggerEvent el CLIP_STOPPED (stopClipWithData vid w1)"
      using True sc by (simp add: scrollToStep_def)
    obtain es2 where "cineEffects (stopClipWithData vid w1) = cineEffects w1 @ es2"
      using stopClipWithData_appends by blast
    then have "cineEffects (triggerEvent el CLIP_STOPPED (stopClipWithData vid w1))
        = cineEffects w @ (es1 @ es2 @ [TriggerEvent el CLIP_STOPPED])"
      using es1 by (simp add: triggerEvent_def)
    then show ?thesis unfolding r ..
  qed
qed

lemma playClipAction_appends:
  "\<exists>es. cineEffects (snd (playClipAction ctx el vid isDynamicCinePlaying scrollError w))
         = cineEffects w @ es"
proof (cases "toolState w vid")
  case None
  then show ?thesis by (simp add: playClipAction_def)
next
  case (Some d)
  let ?res = "playClipAction ctx el vid isDynamicCinePlaying scrollError w"
  let ?stopped = "snd (stopClip' el (\<not> isDynamicCinePlaying) (Some vid) w)"
  have "(\<exists>new. snd ?res = scrollToStep ctx el vid scrollError (currentStepIndex ctx w) new w)
        \<or> (\<exists>new f. snd ?res = scrollToStep ctx el vid scrollError (currentStepIndex ctx w) new
                                (updateToolState vid f w))
        \<or> snd ?res = ?stopped
        \<or> snd ?res = triggerEvent el CLIP_STOPPED ?stopped"
    using Some unfolding playClipAction_def Let_def
    by (auto split: prod.splits sum.splits)
  moreover have "\<exists>es. cineEffects ?stopped = cineEffects w @ es"
    using stops_onlyStops(1)[of w el "\<not> isDynamicCinePlaying" "Some vid"]
    unfolding onlyStops_def by blast
  then have "\<exists>es. cineEffects ?stopped = cineEffects w @ es"
    "\<exists>es. cineEffects (triggerEvent el CLIP_STOPPED ?stopped) = cineEffects w @ es"
    by (auto simp: triggerEvent_def)
  moreover have "\<exists>es. cineEffects (scrollToStep ctx el vid scrollError (currentStepIndex ctx w) new
                                (updateToolState vid f w)) = cineEffects w @ es" for new f
    using scrollToStep_appends[of ctx el vid scrollError "currentStepIndex ctx w" new
        "updateToolState vid f w"] by simp
  ultimately show ?thesis
    using scrollToStep_appends[of ctx el vid scrollError "currentStepIndex ctx w" _ w]
    by metis
qed

text \<open>
  A firing of the timeout handler arms the next timeout for the same handler, with the
  delay the timeouts give for the step shown at that moment, keeps its id in the tool
  data, and runs the tick.
\<close>

lemma callHandler_timeout:
  "callHandler (PlayClipTimeoutHandler ctx el vid dyn ts) scrollError w0 =
     playClipAction ctx el vid dyn scrollError
       (updateToolState vid (\<lambda>d. d\<lparr>intervalId := Some (nextTimerId w0)\<rparr>)
          (emit (SetTimeout (nextTimerId w0) (PlayClipTimeoutHandler ctx el vid dyn ts)
                   (jsGet ts (currentStepIndex ctx w0)))
             (w0\<lparr>nextTimerId := nextTimerId w0 + 1\<rparr>)))"
  "\<exists>es0. cineEffects (snd (callHandler (PlayClipTimeoutHandler ctx el vid dyn ts) scrollError w0)) =
     cineEffects w0 @ SetTimeout (nextTimerId w0) (PlayClipTimeoutHandler ctx el vid dyn ts)
                        (jsGet ts (currentStepIndex ctx w0)) # es0"
proof -
  let ?h = "PlayClipTimeoutHandler ctx el vid dyn ts"
  let ?armed = "updateToolState vid (\<lambda>d. d\<lparr>intervalId := Some (nextTimerId w0)\<rparr>)
          (emit (SetTimeout (nextTimerId w0) ?h (jsGet ts (currentStepIndex ctx w0)))
             (w0\<lparr>nextTimerId := nextTimerId w0 + 1\<rparr>))"
  show eq: "callHandler ?h scrollError w0 = playClipAction ctx el vid dyn scrollError ?armed"
    by (simp add: callHandler_def playClipTimeoutHandler_def setTimeout_def)
  obtain es where "cineEffects (snd (playClipAction ctx el vid dyn scrollError ?armed))
         = cineEffects ?armed @ es"
    using playClipAction_appends by blast
  then have "cineEffects (snd (callHandler ?h scrollError w0)) =
     cineEffects w0 @ SetTimeout (nextTimerId w0) ?h (jsGet ts (currentStepIndex ctx w0)) # es"
    unfolding eq by simp
  then show "\<exists>es0. cineEffects (snd (callHandler ?h scrollError w0)) =
     cineEffects w0 @ SetTimeout (nextTimerId w0) ?h (jsGet ts (currentStepIndex ctx w0)) # es0"
    ..
qed

lemma callHandler_interval:
  "callHandler (PlayClipAction ctx el vid dyn) scrollError w0 =
     playClipAction ctx el vid dyn scrollError w0"
  by (simp add: callHandler_def)

text \<open>
  Claim C3.  A call of playClip on an enabled element whose play context \<open>ctx\<close> has no
  play method returns normally, leaves a timer id in the tool data \<open>d'\<close> of the viewport
  and adds, after the stop effects of the clips it stopped, exactly one timer and the
  CLIP_STARTED event.  The timer is a timeout of 0 ms for playClipTimeoutHandler with the
  computed timeouts exactly when no framesPerSecond has set ignoreFrameTimeVector, a
  frame time vector is stored, its length is the context's numScrollSteps, the context
  reports frameTimeVectorEnabled and the timeouts are time-varying; in every other case it
  is an interval of \<open>1000 / \<bar>framesPerSecond\<bar>\<close> ms for playClipAction.
  usingFrameTimeVector is true exactly in the first case.  The stored vector, speed,
  ignoreFrameTimeVector and framesPerSecond are those of the earlier tool data, or of
  the options and the defaults (30 frames per second) when there was none, overridden by
  a non-zero framesPerSecond option.

  In the first case the timeouts are chained: there is one timeout for each step, and
  whenever the handler is called, in whatever state, it first arms a timeout for itself
  with the delay of the step shown at that moment, \<^verbatim>\<open>playClipTimeouts[currentStepIndex]\<close>,
  keeps the new timer id in the tool data, and then runs the tick playClipAction.  In the
  second case the interval calls the tick alone.
\<close>

theorem playClip_schedules:
  assumes en: "enabledElements w el = Some vid"
    and ctx: "createCinePlayContext vid (withDefaults playClipOptions0) w = (Inr ctx, wc)"
    and np: "\<not> hasPlay ctx"
  shows "\<exists>w' d' timer es.
     playClip jsDiv (Some el) playClipOptions0 w = (Inr (), w') \<and>
     toolState w' vid = Some d' \<and>
     intervalId d' = Some (nextTimerId w) \<and>
     cineEffects w' = cineEffects w @ es @ [timer, TriggerEvent el CLIP_STARTED] \<and>
     list_all isStopEffect es \<and>
     frameTimeVector d' =
       (case toolState w vid of
          None \<Rightarrow> optFrameTimeVector (withDefaults playClipOptions0)
        | Some d \<Rightarrow> frameTimeVector d) \<and>
     speed d' =
       (case toolState w vid of
          None \<Rightarrow> (case optFrameTimeVectorSpeedMultiplier (withDefaults playClipOptions0) of
                     None \<Rightarrow> 1 | Some s \<Rightarrow> s)
        | Some d \<Rightarrow> speed d) \<and>
     ignoreFrameTimeVector d' =
       ((case optFramesPerSecond (withDefaults playClipOptions0) of
           None \<Rightarrow> False | Some f \<Rightarrow> f \<noteq> 0)
        \<or> (case toolState w vid of None \<Rightarrow> False | Some d \<Rightarrow> ignoreFrameTimeVector d)) \<and>
     framesPerSecond d' =
       (case optFramesPerSecond (withDefaults playClipOptions0) of
          None \<Rightarrow> (case toolState w vid of None \<Rightarrow> 30 | Some d \<Rightarrow> framesPerSecond d)
        | Some f \<Rightarrow>
            if f \<noteq> 0 then f
            else (case toolState w vid of None \<Rightarrow> 30 | Some d \<Rightarrow> framesPerSecond d)) \<and>
     (let dyn = (optDynamicCineEnabled (withDefaults playClipOptions0) = Some True);
          schedule =
            (case frameTimeVector d' of
               None \<Rightarrow> None
             | Some v \<Rightarrow>
                 if \<not> ignoreFrameTimeVector d'
                    \<and> int (length v) = numScrollSteps ctx w
                    \<and> frameTimeVectorEnabled ctx w
                    \<and> snd (getPlayClipTimeouts jsDiv v (Some (speed d')))
                 then Some (fst (getPlayClipTimeouts jsDiv v (Some (speed d'))))
                 else None)
      in usingFrameTimeVector d' = (schedule \<noteq> None) \<and>
         (case schedule of
            Some playClipTimeouts \<Rightarrow>
              timer = SetTimeout (nextTimerId w)
                        (PlayClipTimeoutHandler ctx el vid dyn playClipTimeouts) (Some 0) \<and>
              int (length playClipTimeouts) = numScrollSteps ctx w \<and>
              (\<forall>scrollError w0.
                 callHandler (PlayClipTimeoutHandler ctx el vid dyn playClipTimeouts) scrollError w0 =
                   playClipAction ctx el vid dyn scrollError
                     (updateToolState vid (\<lambda>d. d\<lparr>intervalId := Some (nextTimerId w0)\<rparr>)
                        (emit (SetTimeout (nextTimerId w0)
                                 (PlayClipTimeoutHandler ctx el vid dyn playClipTimeouts)
                                 (jsGet playClipTimeouts (currentStepIndex ctx w0)))
                           (w0\<lparr>nextTimerId := nextTimerId w0 + 1\<rparr>))) \<and>
                 (\<exists>es0. cineEffects (snd (callHandler
                             (PlayClipTimeoutHandler ctx el vid dyn playClipTimeouts) scrollError w0)) =
                     cineEffects w0 @
                       SetTimeout (nextTimerId w0)
                         (PlayClipTimeoutHandler ctx el vid dyn playClipTimeouts)
                         (jsGet playClipTimeouts (currentStepIndex ctx w0)) # es0))
          | None \<Rightarrow>
              timer = SetInterval (nextTimerId w) (PlayClipAction ctx el vid dyn)
                        (jsDiv 1000 \<bar>framesPerSecond d'\<bar>) \<and>
              (\<forall>scrollError w0.
                 callHandler (PlayClipAction ctx el vid dyn) scrollError w0 =
                   playClipAction ctx el vid dyn scrollError w0)))"
proof -
  let ?opts = "withDefaults playClipOptions0"
  let ?dyn = "optDynamicCineEnabled ?opts = Some True"
  from playClip_prepares[OF en ctx]
  obtain w3 d3 es where
    run1: "playClip jsDiv (Some el) playClipOptions0 w = startClip jsDiv ctx el vid ?opts ?dyn w3"
    and t3: "toolState w3 vid = Some d3"
    and d3: "d3 = (case toolState w vid of
             None \<Rightarrow>
               \<lparr>intervalId = None, framesPerSecond = 30, lastFrameTimeStamp = None,
                ignoreFrameTimeVector = False, usingFrameTimeVector = False,
                frameTimeVector = optFrameTimeVector ?opts,
                speed = (case optFrameTimeVectorSpeedMultiplier ?opts of None \<Rightarrow> 1 | Some s \<Rightarrow> s),
                reverse = (case optReverse ?opts of None \<Rightarrow> False | Some b \<Rightarrow> b),
                loop = (case optLoop ?opts of None \<Rightarrow> True | Some b \<Rightarrow> b),
                bounce = (case optBounce ?opts of None \<Rightarrow> False | Some b \<Rightarrow> b),
                dynamicCineEnabled = None\<rparr>
           | Some d \<Rightarrow> d\<lparr>intervalId := None\<rparr>)"
    and e3: "cineEffects w3 = cineEffects w @ es" "list_all isStopEffect es"
    and fr3: "viewports w3 = viewports w" "volumeObjects w3 = volumeObjects w"
    and n3: "nextTimerId w3 = nextTimerId w"
    by blast
  have rd: "numScrollSteps ctx w3 = numScrollSteps ctx w"
    "frameTimeVectorEnabled ctx w3 = frameTimeVectorEnabled ctx w"
    by (rule context_reads[OF fr3])+
  have f3: "frameTimeVector d3 =
       (case toolState w vid of None \<Rightarrow> optFrameTimeVector ?opts | Some d \<Rightarrow> frameTimeVector d)"
    "speed d3 =
       (case toolState w vid of
          None \<Rightarrow> (case optFrameTimeVectorSpeedMultiplier ?opts of None \<Rightarrow> 1 | Some s \<Rightarrow> s)
        | Some d \<Rightarrow> speed d)"
    "ignoreFrameTimeVector d3 = (case toolState w vid of None \<Rightarrow> False | Some d \<Rightarrow> ignoreFrameTimeVector d)"
    "framesPerSecond d3 = (case toolState w vid of None \<Rightarrow> 30 | Some d \<Rightarrow> framesPerSecond d)"
    unfolding d3 by (simp_all split: option.splits)
  from startClip_schedules[OF t3 np, of jsDiv el ?opts ?dyn]
  obtain w' d' timer where
    run2: "startClip jsDiv ctx el vid ?opts ?dyn w3 = (Inr (), w')"
    and c2: "toolState w' vid = Some d'"
    and c3: "intervalId d' = Some (nextTimerId w3)"
    and c4: "cineEffects w' = cineEffects w3 @ [timer, TriggerEvent el CLIP_STARTED]"
    and c5: "frameTimeVector d' = frameTimeVector d3"
    and c6: "speed d' = speed d3"
    and c7: "ignoreFrameTimeVector d' =
       ((case optFramesPerSecond ?opts of None \<Rightarrow> False | Some f \<Rightarrow> f \<noteq> 0)
        \<or> ignoreFrameTimeVector d3)"
    and c8: "framesPerSecond d' =
       (case optFramesPerSecond ?opts of
          None \<Rightarrow> framesPerSecond d3
        | Some f \<Rightarrow> if f \<noteq> 0 then f else framesPerSecond d3)"
    and c9: "(let schedule =
            (case frameTimeVector d' of
               None \<Rightarrow> None
             | Some v \<Rightarrow>
                 if \<not> ignoreFrameTimeVector d'
                    \<and> int (length v) = numScrollSteps ctx w3
                    \<and> frameTimeVectorEnabled ctx w3
                    \<and> snd (getPlayClipTimeouts jsDiv v (Some (speed d')))
                 then Some (fst (getPlayClipTimeouts jsDiv v (Some (speed d'))))
                 else None)
      in usingFrameTimeVector d' = (schedule \<noteq> None) \<and>
         timer = (case schedule of
                    Some playClipTimeouts \<Rightarrow>
                      SetTimeout (nextTimerId w3) (PlayClipTimeoutHandler ctx el vid ?dyn playClipTimeouts) (Some 0)
                  | None \<Rightarrow>
                      SetInterval (nextTimerId w3) (PlayClipAction ctx el vid ?dyn) (jsDiv 1000 \<bar>framesPerSecond d'\<bar>)))"
    by blast
  define schedule where "schedule =
            (case frameTimeVector d' of
               None \<Rightarrow> None
             | Some v \<Rightarrow>
                 if \<not> ignoreFrameTimeVector d'
                    \<and> int (length v) = numScrollSteps ctx w
                    \<and> frameTimeVectorEnabled ctx w
                    \<and> snd (getPlayClipTimeouts jsDiv v (Some (speed d')))
                 then Some (fst (getPlayClipTimeouts jsDiv v (Some (speed d'))))
                 else None)"
  have g1: "playClip jsDiv (Some el) playClipOptions0 w = (Inr (), w')" using run1 run2 by simp
  have g3: "intervalId d' = Some (nextTimerId w)" using c3 n3 by simp
  have g4: "cineEffects w' = cineEffects w @ es @ [timer, TriggerEvent el CLIP_STARTED]"
    using c4 e3(1) by simp
  have g5: "frameTimeVector d' =
       (case toolState w vid of None \<Rightarrow> optFrameTimeVector ?opts | Some d \<Rightarrow> frameTimeVector d)"
    unfolding c5 by (fact f3(1))
  have g6: "speed d' =
       (case toolState w vid of
          None \<Rightarrow> (case optFrameTimeVectorSpeedMultiplier ?opts of None \<Rightarrow> 1 | Some s \<Rightarrow> s)
        | Some d \<Rightarrow> speed d)"
    unfolding c6 by (fact f3(2))
  have g7: "ignoreFrameTimeVector d' =
       ((case optFramesPerSecond ?opts of None \<Rightarrow> False | Some f \<Rightarrow> f \<noteq> 0)
        \<or> (case toolState w vid of None \<Rightarrow> False | Some d \<Rightarrow> ignoreFrameTimeVector d))"
    unfolding c7 f3(3) ..
  have g8: "framesPerSecond d' =
       (case optFramesPerSecond ?opts of
          None \<Rightarrow> (case toolState w vid of None \<Rightarrow> 30 | Some d \<Rightarrow> framesPerSecond d)
        | Some f \<Rightarrow>
            if f \<noteq> 0 then f
            else (case toolState w vid of None \<Rightarrow> 30 | Some d \<Rightarrow> framesPerSecond d))"
    unfolding c8 f3(4) ..
  have g9: "usingFrameTimeVector d' = (schedule \<noteq> None)"
    and tm: "timer = (case schedule of
                    Some playClipTimeouts \<Rightarrow>
                      SetTimeout (nextTimerId w) (PlayClipTimeoutHandler ctx el vid ?dyn playClipTimeouts) (Some 0)
                  | None \<Rightarrow>
                      SetInterval (nextTimerId w) (PlayClipAction ctx el vid ?dyn) (jsDiv 1000 \<bar>framesPerSecond d'\<bar>))"
    using c9 unfolding Let_def rd n3 schedule_def[symmetric] by simp_all
  have len: "int (length ts) = numScrollSteps ctx w" if "schedule = Some ts" for ts
  proof -
    from that obtain v where v: "frameTimeVector d' = Some v"
      and lv: "int (length v) = numScrollSteps ctx w"
      and tv: "snd (getPlayClipTimeouts jsDiv v (Some (speed d')))"
      and ts: "ts = fst (getPlayClipTimeouts jsDiv v (Some (speed d')))"
      unfolding schedule_def by (auto split: option.splits if_splits)
    show ?thesis unfolding ts getPlayClipTimeouts_length[OF tv] by (fact lv)
  qed
  have g10: "(case schedule of
            Some playClipTimeouts \<Rightarrow>
              timer = SetTimeout (nextTimerId w)
                        (PlayClipTimeoutHandler ctx el vid ?dyn playClipTimeouts) (Some 0) \<and>
              int (length playClipTimeouts) = numScrollSteps ctx w \<and>
              (\<forall>scrollError w0.
                 callHandler (PlayClipTimeoutHandler ctx el vid ?dyn playClipTimeouts) scrollError w0 =
                   playClipAction ctx el vid ?dyn scrollError
                     (updateToolState vid (\<lambda>d. d\<lparr>intervalId := Some (nextTimerId w0)\<rparr>)
                        (emit (SetTimeout (nextTimerId w0)
                                 (PlayClipTimeoutHandler ctx el vid ?dyn playClipTimeouts)
                                 (jsGet playClipTimeouts (currentStepIndex ctx w0)))
                           (w0\<lparr>nextTimerId := nextTimerId w0 + 1\<rparr>))) \<and>
                 (\<exists>es0. cineEffects (snd (callHandler
                             (PlayClipTimeoutHandler ctx el vid ?dyn playClipTimeouts) scrollError w0)) =
                     cineEffects w0 @
                       SetTimeout (nextTimerId w0)
                         (PlayClipTimeoutHandler ctx el vid ?dyn playClipTimeouts)
                         (jsGet playClipTimeouts (currentStepIndex ctx w0)) # es0))
          | None \<Rightarrow>
              timer = SetInterval (nextTimerId w) (PlayClipAction ctx el vid ?dyn)
                        (jsDiv 1000 \<bar>framesPerSecond d'\<bar>) \<and>
              (\<forall>scrollError w0.
                 callHandler (PlayClipAction ctx el vid ?dyn) scrollError w0 =
                   playClipAction ctx el vid ?dyn scrollError w0))"
  proof (cases schedule)
    case None
    then show ?thesis using tm by (simp add: callHandler_interval)
  next
    case (Some ts)
    have "timer = SetTimeout (nextTimerId w) (PlayClipTimeoutHandler ctx el vid ?dyn ts) (Some 0)"
      using tm Some by simp
    moreover note len[OF Some]
    moreover note callHandler_timeout[of ctx el vid ?dyn ts]
    ultimately show ?thesis unfolding Some option.case by blast
  qed
  note g9' = g9[unfolded schedule_def] and g10' = g10[unfolded schedule_def]
  show ?thesis
    unfolding Let_def
    apply (rule exI[of _ w'], rule exI[of _ d'], rule exI[of _ timer], rule exI[of _ es])
    by (intro conjI) (fact g1 c2 g3 g4 e3(2) g5 g6 g7 g8 g9' g10')+
qed

theorem playClip_schedules_witness:
  "(\<exists>w' d' es. playClip exactDivide (Some 0) (Some exampleFpsOptions) exampleWorld = (Inr (), w')
       \<and> toolState w' ''vp'' = Some d'
       \<and> \<not> usingFrameTimeVector d' \<and> framesPerSecond d' = 25
       \<and> cineEffects w' = es @ [SetInterval 1 (PlayClipAction (StackContext ''vp'' 3 30) 0 ''vp'' True) 40,
                                  TriggerEvent 0 CLIP_STARTED])
   \<and> (\<exists>w' d' es. playClip exactDivide (Some 0) (Some exampleVectorOptions) exampleWorld = (Inr (), w')
       \<and> toolState w' ''vp'' = Some d'
       \<and> usingFrameTimeVector d'
       \<and> cineEffects w' = es @ [SetTimeout 1 (PlayClipTimeoutHandler (StackContext ''vp'' 3 30) 0 ''vp'' True
                                                 [30, 40, 35]) (Some 0),
                                  TriggerEvent 0 CLIP_STARTED])
   \<and> (\<exists>es0. cineEffects (snd (callHandler
               (PlayClipTimeoutHandler (StackContext ''vp'' 3 30) 0 ''vp'' True [30, 40, 35]) None
               (examplePlayingWorld examplePlayClipData))) =
          SetTimeout 1 (PlayClipTimeoutHandler (StackContext ''vp'' 3 30) 0 ''vp'' True [30, 40, 35])
            (Some 35) # es0)"
proof -
  have en: "enabledElements exampleWorld 0 = Some ''vp''"
    and ts: "toolState exampleWorld ''vp'' = None"
    and nt: "nextTimerId exampleWorld = 1"
    and ce: "cineEffects exampleWorld = []"
    by (simp_all add: exampleWorld_def)
  have vp: "viewportClass (viewports exampleWorld ''vp'') = StackViewport"
    "imageIdsLength (viewports exampleWorld ''vp'') = 3"
    by (simp_all add: exampleWorld_def exampleStackViewport_def)
  have o1: "optWaitForRendered (withDefaults (Some exampleFpsOptions)) = None"
    "optFrameTimeVector (withDefaults (Some exampleFpsOptions)) = None"
    "optFramesPerSecond (withDefaults (Some exampleFpsOptions)) = Some 25"
    "optDynamicCineEnabled (withDefaults (Some exampleFpsOptions)) = Some True"
    by (simp_all add: withDefaults_def noOptions_def exampleFpsOptions_def)
  have o2: "optWaitForRendered (withDefaults (Some exampleVectorOptions)) = None"
    "optFrameTimeVector (withDefaults (Some exampleVectorOptions)) = Some [0, 30, 40]"
    "optFramesPerSecond (withDefaults (Some exampleVectorOptions)) = None"
    "optFrameTimeVectorSpeedMultiplier (withDefaults (Some exampleVectorOptions)) = None"
    "optDynamicCineEnabled (withDefaults (Some exampleVectorOptions)) = Some True"
    by (simp_all add: withDefaults_def noOptions_def exampleVectorOptions_def)
  have c1: "createCinePlayContext ''vp'' (withDefaults (Some exampleFpsOptions)) exampleWorld =
      (Inr (StackContext ''vp'' 3 30),
       exampleWorld\<lparr>waitForRenderedCount := (waitForRenderedCount exampleWorld)(''vp'' := 0)\<rparr>)"
    by (simp add: createCinePlayContext_def Let_def vp o1)
  have c2: "createCinePlayContext ''vp'' (withDefaults (Some exampleVectorOptions)) exampleWorld =
      (Inr (StackContext ''vp'' 3 30),
       exampleWorld\<lparr>waitForRenderedCount := (waitForRenderedCount exampleWorld)(''vp'' := 0)\<rparr>)"
    by (simp add: createCinePlayContext_def Let_def vp o2)
  have tv: "getPlayClipTimeouts exactDivide [0, 30, 40] (Some 1) = ([30, 40, 35], True)"
    unfolding getPlayClipTimeouts_eq by (simp add: Let_def toInt32_def trunc_def exactDivide_def)
  have pw: "nextTimerId (examplePlayingWorld examplePlayClipData) = 1"
    "cineEffects (examplePlayingWorld examplePlayClipData) = []"
    "targetImageIdIndex (viewports (examplePlayingWorld examplePlayClipData) ''vp'') = 2"
    by (simp_all add: examplePlayingWorld_def exampleWorld_def exampleStackViewport_def)
  have first: "\<exists>w' d' es. playClip exactDivide (Some 0) (Some exampleFpsOptions) exampleWorld = (Inr (), w')
       \<and> toolState w' ''vp'' = Some d'
       \<and> \<not> usingFrameTimeVector d' \<and> framesPerSecond d' = 25
       \<and> cineEffects w' = es @ [SetInterval 1 (PlayClipAction (StackContext ''vp'' 3 30) 0 ''vp'' True) 40,
                                  TriggerEvent 0 CLIP_STARTED]"
    using playClip_schedules[OF en c1 _, of exactDivide]
    by (auto simp: Let_def ts nt ce o1 exactDivide_def)
  have np: "\<not> hasPlay (StackContext ''vp'' 3 30)" by simp
  have second: "\<exists>w' d' es. playClip exactDivide (Some 0) (Some exampleVectorOptions) exampleWorld = (Inr (), w')
       \<and> toolState w' ''vp'' = Some d'
       \<and> usingFrameTimeVector d'
       \<and> cineEffects w' = es @ [SetTimeout 1 (PlayClipTimeoutHandler (StackContext ''vp'' 3 30) 0 ''vp'' True
                                                 [30, 40, 35]) (Some 0),
                                  TriggerEvent 0 CLIP_STARTED]"
    using playClip_schedules[OF en c2 np, of exactDivide]
    by (auto simp: Let_def ts nt ce o2 tv)
  from playClip_schedules[OF en c2 np, of exactDivide]
  have chain: "\<forall>scrollError w0.
       callHandler (PlayClipTimeoutHandler (StackContext ''vp'' 3 30) 0 ''vp'' True [30, 40, 35])
           scrollError w0 =
         playClipAction (StackContext ''vp'' 3 30) 0 ''vp'' True scrollError
           (updateToolState ''vp'' (\<lambda>d. d\<lparr>intervalId := Some (nextTimerId w0)\<rparr>)
              (emit (SetTimeout (nextTimerId w0)
                       (PlayClipTimeoutHandler (StackContext ''vp'' 3 30) 0 ''vp'' True [30, 40, 35])
                       (jsGet [30, 40, 35] (currentStepIndex (StackContext ''vp'' 3 30) w0)))
                 (w0\<lparr>nextTimerId := nextTimerId w0 + 1\<rparr>))) \<and>
       (\<exists>es0. cineEffects (snd (callHandler
               (PlayClipTimeoutHandler (StackContext ''vp'' 3 30) 0 ''vp'' True [30, 40, 35]) scrollError w0)) =
          cineEffects w0 @ SetTimeout (nextTimerId w0)
            (PlayClipTimeoutHandler (StackContext ''vp'' 3 30) 0 ''vp'' True [30, 40, 35])
            (jsGet [30, 40, 35] (currentStepIndex (StackContext ''vp'' 3 30) w0)) # es0)"
    by (elim exE conjE) (simp add: Let_def ts nt ce o2 tv, metis)
  have third: "\<exists>es0. cineEffects (snd (callHandler
               (PlayClipTimeoutHandler (StackContext ''vp'' 3 30) 0 ''vp'' True [30, 40, 35]) None
               (examplePlayingWorld examplePlayClipData))) =
          SetTimeout 1 (PlayClipTimeoutHandler (StackContext ''vp'' 3 30) 0 ''vp'' True [30, 40, 35])
            (Some 35) # es0"
    using chain[rule_format, of None "examplePlayingWorld examplePlayClipData", THEN conjunct2]
    by (simp add: pw jsGet_def)
  show ?thesis using first second third by (intro conjI)
qed

end
